theory Spec2Isabelle
  imports Main "HOL-Library.Char_ord" "HOL-Library.List_Lexorder"
begin

section \<open>JavaScript values\<close>

text \<open>
  The server is an Express application over a hosted PostgreSQL store reached through the
  supabase client. Request bodies and table rows are JSON objects that the handlers pass
  through unchanged, so both are modelled as finite maps from property names to JSON
  values. A property that is absent (JavaScript \<open>undefined\<close>) is \<open>None\<close>.
  Numbers are the safe integers: the whole numbers below \<open>2^53\<close> in magnitude, which a
  double holds exactly and \<open>String\<close> prints digit by digit.
\<close>

datatype jsval =
    JNull
  | JBool bool
  | JNum int
  | JStr string
  | JArr "jsval list"
  | JObj "(string \<times> jsval) list"

type_synonym jsobj = "string \<rightharpoonup> jsval"

text \<open>JavaScript truthiness, as used by \<open>if (req.user.department)\<close>.\<close>

fun truthy :: "jsval option \<Rightarrow> bool" where
  "truthy None = False"
| "truthy (Some JNull) = False"
| "truthy (Some (JBool b)) = b"
| "truthy (Some (JNum n)) = (n \<noteq> 0)"
| "truthy (Some (JStr s)) = (s \<noteq> [])"
| "truthy (Some (JArr vs)) = True"
| "truthy (Some (JObj kvs)) = True"

text \<open>\<open>String.prototype.endsWith\<close>.\<close>

definition endsWith :: "string \<Rightarrow> string \<Rightarrow> bool" where
  "endsWith s suf \<longleftrightarrow>
     length suf \<le> length s \<and> drop (length s - length suf) s = suf"

text \<open>
  Decimal rendering of a safe integer, for \<open>String(n)\<close> and template literals.
\<close>

definition digit :: "nat \<Rightarrow> char" where
  "digit n = ''0123456789'' ! (n mod 10)"

function show_nat :: "nat \<Rightarrow> string" where
  "show_nat n = (if n < 10 then [digit n] else show_nat (n div 10) @ [digit n])"
  by pat_completeness auto
termination
  by (relation "measure id") auto

definition show_int :: "int \<Rightarrow> string" where
  "show_int i = (if i < 0 then CHR ''-'' # show_nat (nat (- i)) else show_nat (nat i))"

fun join :: "string \<Rightarrow> string list \<Rightarrow> string" where
  "join sep [] = []"
| "join sep [s] = s"
| "join sep (s # t # ss) = s @ sep @ join sep (t # ss)"

text \<open>
  \<open>String(v)\<close>: what a template literal and the client's filter builder make of a
  value. An array is its elements joined by commas, with \<open>null\<close> elements empty.
\<close>

fun js_string :: "jsval \<Rightarrow> string" where
  "js_string JNull = ''null''"
| "js_string (JBool b) = (if b then ''true'' else ''false'')"
| "js_string (JNum n) = show_int n"
| "js_string (JStr s) = s"
| "js_string (JArr vs) = join '','' (map (\<lambda>v. if v = JNull then [] else js_string v) vs)"
| "js_string (JObj kvs) = ''[object Object]''"

definition js_string_opt :: "jsval option \<Rightarrow> string" where
  "js_string_opt v = (case v of None \<Rightarrow> ''undefined'' | Some x \<Rightarrow> js_string x)"

section \<open>The data store\<close>

text \<open>
  The four tables the handlers name. A table is the list of its rows. Every call of the
  client is recorded in \<open>oplog\<close>, so that "this path never reaches the store" can be
  stated.
\<close>

datatype table = AdminWhitelist | Users | YearPeriodTimings | OdRequests

datatype store_op =
    OpSelect table
  | OpInsert table
  | OpUpdate table
  | OpUpsert table
  | OpDelete table

record db =
  tables :: "table \<Rightarrow> jsobj list"
  oplog :: "store_op list"

text \<open>The error object of a failed call: \<open>error.code\<close> and \<open>error.message\<close>.\<close>

record pg_error =
  code :: string
  message :: string

text \<open>
  A call resolves to \<open>{ data, error }\<close> with exactly one of the two set: \<open>Inl\<close> is
  the error (and \<open>data\<close> is \<open>null\<close>), \<open>Inr\<close> the data.
\<close>

type_synonym 'a result = "pg_error + 'a"

definition logged :: "store_op \<Rightarrow> db \<Rightarrow> db" where
  "logged c d = d\<lparr>oplog := oplog d @ [c]\<rparr>"

definition set_rows :: "table \<Rightarrow> jsobj list \<Rightarrow> db \<Rightarrow> db" where
  "set_rows t rs d = d\<lparr>tables := (tables d)(t := rs)\<rparr>"

text \<open>
  The filter \<open>.eq(column, value)\<close>: the client sends \<open>String(value)\<close> and the store
  compares it with the column, which is never equal to anything when it is null or
  missing. Columns compare by their text.
\<close>

fun eq_filter :: "string \<Rightarrow> string \<Rightarrow> jsobj \<Rightarrow> bool" where
  "eq_filter col v r =
     (case r col of
        None \<Rightarrow> False
      | Some JNull \<Rightarrow> False
      | Some x \<Rightarrow> js_string x = v)"

text \<open>
  \<open>.select('a, b')\<close> keeps the named columns of each row; a column the row has no
  value for comes back as \<open>null\<close>.
\<close>

definition project :: "string list \<Rightarrow> jsobj \<Rightarrow> jsobj" where
  "project cols r =
     (\<lambda>k. if k \<in> set cols then Some (case r k of None \<Rightarrow> JNull | Some v \<Rightarrow> v) else None)"

text \<open>
  A read. \<open>fault\<close> is what the store itself answers when it fails (unreachable,
  permission, malformed filter): then no data comes back.
\<close>

definition select_rows ::
  "pg_error option \<Rightarrow> table \<Rightarrow> (jsobj \<Rightarrow> bool) \<Rightarrow> db \<Rightarrow> jsobj list result \<times> db" where
  "select_rows fault t P d =
     ((case fault of Some e \<Rightarrow> Inl e | None \<Rightarrow> Inr (filter P (tables d t))),
      logged (OpSelect t) d)"

text \<open>
  \<open>.single()\<close> asks for exactly one row. With none or several the store answers
  the error PGRST116.
\<close>

definition PGRST116 :: pg_error where
  "PGRST116 =
     \<lparr>code = ''PGRST116'',
      message = ''JSON object requested, multiple (or no) rows returned''\<rparr>"

fun single :: "jsobj list result \<Rightarrow> jsobj result" where
  "single (Inl e) = Inl e"
| "single (Inr [r]) = Inr r"
| "single (Inr rs) = Inl PGRST116"

text \<open>
  Ordering by a column. Numbers compare as numbers, strings as strings; \<open>null\<close> sorts
  after every value. Descending is the reverse.
\<close>

definition is_null :: "jsval option \<Rightarrow> bool" where
  "is_null v \<longleftrightarrow> v = None \<or> v = Some JNull"

definition col_le :: "jsval option \<Rightarrow> jsval option \<Rightarrow> bool" where
  "col_le a b =
     (if is_null b then True
      else if is_null a then False
      else (case (a, b) of
              (Some (JNum x), Some (JNum y)) \<Rightarrow> x \<le> y
            | (Some (JStr x), Some (JStr y)) \<Rightarrow> x \<le> y
            | _ \<Rightarrow> True))"

fun insert_sorted :: "string \<Rightarrow> jsobj \<Rightarrow> jsobj list \<Rightarrow> jsobj list" where
  "insert_sorted col r [] = [r]"
| "insert_sorted col r (x # xs) =
     (if col_le (x col) (r col) then x # insert_sorted col r xs else r # x # xs)"

definition order_by :: "string \<Rightarrow> bool \<Rightarrow> jsobj list \<Rightarrow> jsobj list" where
  "order_by col ascending rs =
     (let sorted_rows = foldl (\<lambda>acc r. insert_sorted col r acc) [] rs
      in if ascending then sorted_rows else rev sorted_rows)"

text \<open>
  Modelled from the spec: the schema of the store is not part of the repository. An
  ODRequest is created in the state \<open>pending\<close>, which the handler leaves to the store:
  the default applies to a row that brings no \<open>status\<close> of its own. \<open>generated\<close> are
  the columns the store produces for the new row (its identifier, its timestamps).
\<close>

definition column_defaults :: "table \<Rightarrow> jsobj \<Rightarrow> jsobj" where
  "column_defaults t generated =
     (if t = OdRequests then generated(''status'' \<mapsto> JStr ''pending'') else generated)"

text \<open>
  The writes. A failed write leaves the tables as they were. A write that is asked for
  a \<open>.single()\<close> row and touches none or several is answered with PGRST116 and is
  rolled back.
\<close>

definition insert_row ::
  "pg_error option \<Rightarrow> jsobj \<Rightarrow> table \<Rightarrow> jsobj \<Rightarrow> db \<Rightarrow> jsobj list result \<times> db" where
  "insert_row fault generated t b d =
     (case fault of
        Some e \<Rightarrow> (Inl e, logged (OpInsert t) d)
      | None \<Rightarrow>
          (let r = column_defaults t generated ++ b
           in (Inr [r], logged (OpInsert t) (set_rows t (tables d t @ [r]) d))))"

definition same_key :: "string list \<Rightarrow> jsobj \<Rightarrow> jsobj \<Rightarrow> bool" where
  "same_key keys b r \<longleftrightarrow> (\<forall>k \<in> set keys. \<not> is_null (b k) \<and> r k = b k)"

definition upsert_row ::
  "pg_error option \<Rightarrow> jsobj \<Rightarrow> table \<Rightarrow> string list \<Rightarrow> jsobj \<Rightarrow> db \<Rightarrow> jsobj list result \<times> db" where
  "upsert_row fault generated t keys b d =
     (case fault of
        Some e \<Rightarrow> (Inl e, logged (OpUpsert t) d)
      | None \<Rightarrow>
          (if \<exists>r \<in> set (tables d t). same_key keys b r
           then (Inr (map (\<lambda>r. r ++ b) (filter (same_key keys b) (tables d t))),
                 logged (OpUpsert t)
                   (set_rows t (map (\<lambda>r. if same_key keys b r then r ++ b else r) (tables d t)) d))
           else (let r = column_defaults t generated ++ b
                 in (Inr [r], logged (OpUpsert t) (set_rows t (tables d t @ [r]) d)))))"

definition update_single ::
  "pg_error option \<Rightarrow> table \<Rightarrow> (jsobj \<Rightarrow> bool) \<Rightarrow> jsobj \<Rightarrow> db \<Rightarrow> jsobj result \<times> db" where
  "update_single fault t P changes d =
     (case fault of
        Some e \<Rightarrow> (Inl e, logged (OpUpdate t) d)
      | None \<Rightarrow>
          (case filter P (tables d t) of
             [r] \<Rightarrow> (Inr (r ++ changes),
                      logged (OpUpdate t)
                        (set_rows t (map (\<lambda>r. if P r then r ++ changes else r) (tables d t)) d))
           | _ \<Rightarrow> (Inl PGRST116, logged (OpUpdate t) d)))"

definition delete_rows ::
  "pg_error option \<Rightarrow> table \<Rightarrow> (jsobj \<Rightarrow> bool) \<Rightarrow> db \<Rightarrow> unit result \<times> db" where
  "delete_rows fault t P d =
     (case fault of
        Some e \<Rightarrow> (Inl e, logged (OpDelete t) d)
      | None \<Rightarrow> (Inr (), logged (OpDelete t) (set_rows t (filter (\<lambda>r. \<not> P r) (tables d t)) d)))"

text \<open>
  What lies outside the program during one request: the failure, if any, of each of its
  store calls (the whitelist lookup, the timings fetch of the validator, the handler's
  own operation) and the columns the store generates for an inserted row.
\<close>

record store_replies =
  lookup_fault :: "pg_error option"
  timings_fault :: "pg_error option"
  main_fault :: "pg_error option"
  generated_columns :: jsobj

section \<open>Dates\<close>

text \<open>
  A \<open>Date\<close> holds a time value: a whole number of milliseconds since the epoch, at
  most \<open>8.64e15\<close> in magnitude, or \<open>NaN\<close> (\<open>None\<close>) for an invalid date. The
  functions are those of the ECMAScript specification.
\<close>

type_synonym jsnum = "int option"

definition msPerDay :: int where
  "msPerDay = 86400000"

definition maxTime :: int where
  "maxTime = 8640000000000000"

definition Day :: "int \<Rightarrow> int" where
  "Day t = t div msPerDay"

definition DayFromYear :: "int \<Rightarrow> int" where
  "DayFromYear y =
     365 * (y - 1970) + (y - 1969) div 4 - (y - 1901) div 100 + (y - 1601) div 400"

definition DaysInYear :: "int \<Rightarrow> int" where
  "DaysInYear y =
     (if y mod 4 \<noteq> 0 then 365
      else if y mod 100 \<noteq> 0 then 366
      else if y mod 400 \<noteq> 0 then 365
      else 366)"

text \<open>
  The year of a day number: the largest \<open>y\<close> with \<open>DayFromYear y \<le> d\<close>, computed
  from the 400-, 100-, 4- and 1-year cycles counted from 1 January 1601. The last century
  of a 400-year cycle and the last year of a 4-year cycle are one day longer, hence the
  two \<open>min\<close>.
\<close>

definition year_in_century :: "int \<Rightarrow> int" where
  "year_in_century r = 4 * (r div 1461) + min 3 (r mod 1461 div 365)"

definition century_in_era :: "int \<Rightarrow> int" where
  "century_in_era r = min 3 (r div 36524)"

definition year_in_era :: "int \<Rightarrow> int" where
  "year_in_era r = 100 * century_in_era r + year_in_century (r - 36524 * century_in_era r)"

definition YearFromDay :: "int \<Rightarrow> int" where
  "YearFromDay d =
     1601 + 400 * ((d + 134774) div 146097) + year_in_era ((d + 134774) mod 146097)"

definition YearFromTime :: "int \<Rightarrow> int" where
  "YearFromTime t = YearFromDay (Day t)"

definition leap_flag :: "int \<Rightarrow> int" where
  "leap_flag y = (if DaysInYear y = 366 then 1 else 0)"

definition InLeapYear :: "int \<Rightarrow> int" where
  "InLeapYear t = leap_flag (YearFromTime t)"

definition DayWithinYear :: "int \<Rightarrow> int" where
  "DayWithinYear t = Day t - DayFromYear (YearFromTime t)"

text \<open>The day of the year on which month \<open>m\<close> (0 to 11) starts.\<close>

definition month_start :: "int \<Rightarrow> int \<Rightarrow> int" where
  "month_start leap m =
     (if m = 0 then 0
      else if m = 1 then 31
      else if m = 2 then 59 + leap
      else if m = 3 then 90 + leap
      else if m = 4 then 120 + leap
      else if m = 5 then 151 + leap
      else if m = 6 then 181 + leap
      else if m = 7 then 212 + leap
      else if m = 8 then 243 + leap
      else if m = 9 then 273 + leap
      else if m = 10 then 304 + leap
      else 334 + leap)"

text \<open>The month in which day \<open>d\<close> of a year falls.\<close>

definition month_of_day :: "int \<Rightarrow> int \<Rightarrow> int" where
  "month_of_day leap d =
     (if d < 31 then 0
      else if d < 59 + leap then 1
      else if d < 90 + leap then 2
      else if d < 120 + leap then 3
      else if d < 151 + leap then 4
      else if d < 181 + leap then 5
      else if d < 212 + leap then 6
      else if d < 243 + leap then 7
      else if d < 273 + leap then 8
      else if d < 304 + leap then 9
      else if d < 334 + leap then 10
      else 11)"

definition MonthFromTime :: "int \<Rightarrow> int" where
  "MonthFromTime t = month_of_day (InLeapYear t) (DayWithinYear t)"

definition DateFromTime :: "int \<Rightarrow> int" where
  "DateFromTime t = DayWithinYear t - month_start (InLeapYear t) (MonthFromTime t) + 1"

definition MakeDay :: "int \<Rightarrow> int \<Rightarrow> int \<Rightarrow> int" where
  "MakeDay year month date =
     DayFromYear (year + month div 12)
       + month_start (leap_flag (year + month div 12)) (month mod 12) + date - 1"

definition MakeDate :: "int \<Rightarrow> int \<Rightarrow> int" where
  "MakeDate day time = day * msPerDay + time"

definition TimeClip :: "int \<Rightarrow> jsnum" where
  "TimeClip t = (if abs t > maxTime then None else Some t)"

text \<open>
  The zone rules of the host, ECMAScript's \<open>LocalTZA(t, isUTC)\<close>: the offset of local
  time from UTC in milliseconds, in effect at the UTC time \<open>t\<close> when \<open>isUTC\<close> is
  true and at the local time \<open>t\<close> when it is false. The offset changes with daylight
  saving and with the history of the zone.
\<close>

type_synonym zone = "int \<Rightarrow> bool \<Rightarrow> int"

definition LocalTime :: "zone \<Rightarrow> int \<Rightarrow> int" where
  "LocalTime tz t = t + tz t True"

definition UTC :: "zone \<Rightarrow> int \<Rightarrow> int" where
  "UTC tz t = t - tz t False"

text \<open>The getters of \<open>Date.prototype\<close>: \<open>NaN\<close> for an invalid date.\<close>

definition getFullYear :: "zone \<Rightarrow> jsnum \<Rightarrow> jsnum" where
  "getFullYear tz d = map_option (\<lambda>t. YearFromTime (LocalTime tz t)) d"

definition getMonth :: "zone \<Rightarrow> jsnum \<Rightarrow> jsnum" where
  "getMonth tz d = map_option (\<lambda>t. MonthFromTime (LocalTime tz t)) d"

definition getDate :: "zone \<Rightarrow> jsnum \<Rightarrow> jsnum" where
  "getDate tz d = map_option (\<lambda>t. DateFromTime (LocalTime tz t)) d"

text \<open>
  \<open>new Date(year, month, date)\<close>: local midnight of that day. A year from 0 to 99 is
  read as a year of the twentieth century.
\<close>

definition full_year :: "int \<Rightarrow> int" where
  "full_year y = (if 0 \<le> y \<and> y \<le> 99 then 1900 + y else y)"

definition Date_ymd :: "zone \<Rightarrow> jsnum \<Rightarrow> jsnum \<Rightarrow> jsnum \<Rightarrow> jsnum" where
  "Date_ymd tz year month date =
     (case (year, month, date) of
        (Some y, Some m, Some dt) \<Rightarrow> TimeClip (UTC tz (MakeDate (MakeDay (full_year y) m dt) 0))
      | _ \<Rightarrow> None)"

text \<open>\<open>a < b\<close> on two dates compares their time values; with a \<open>NaN\<close> it is false.\<close>

definition date_lt :: "jsnum \<Rightarrow> jsnum \<Rightarrow> bool" where
  "date_lt a b = (case (a, b) of (Some x, Some y) \<Rightarrow> x < y | _ \<Rightarrow> False)"

text \<open>
  The host of one request: the clock (\<open>new Date()\<close> and its \<open>toISOString()\<close>), the
  zone rules, the host's date parser \<open>new Date(value)\<close>, which yields a time value
  or an invalid date, and the installed store client's treatment of a value list that is
  not an array (see \<open>in_values\<close> below).
\<close>

record env =
  now :: int
  nowISO :: string
  localTZA :: zone
  newDate :: "jsval option \<Rightarrow> jsnum"
  non_array :: "jsval option \<Rightarrow> pg_error + jsval list"

section \<open>Requests and responses\<close>

text \<open>
  \<open>req.user\<close> is what \<open>authenticate\<close> stores after verifying the bearer token: the
  claims \<open>sub\<close> and \<open>email\<close>, to which \<open>authorize\<close> may add \<open>department\<close>.
  The verification of the token itself belongs to the JWT library; a request here is one
  that has passed it. \<open>param\<close> is the route parameter (\<open>:id\<close>, \<open>:year\<close>, \<open>:userId\<close>, \<open>:email\<close>) and
  \<open>body\<close> the parsed JSON object of the request.
\<close>

record claims =
  sub :: string
  email :: string
  department :: "jsval option"

record request =
  user :: claims
  param :: string
  body :: jsobj

record stats =
  total :: nat
  approved :: nat
  pending :: nat
  rejected :: nat
  deptDistribution :: jsobj
  categoryUsage :: jsobj

datatype payload =
    JsonError string
  | JsonRow jsobj
  | JsonRows "jsobj list"
  | JsonStats stats
  | Csv string
  | Text string
  | NoContent

record response =
  status_code :: nat
  content :: payload

definition reply :: "nat \<Rightarrow> payload \<Rightarrow> response" where
  "reply c p = \<lparr>status_code = c, content = p\<rparr>"

section \<open>Middleware: authorize\<close>

text \<open>
  \<open>authorize(role)\<close> looks the caller's email up in \<open>admin_whitelist\<close> with
  \<open>.single()\<close> and ignores the error of the lookup: \<open>isAdmin\<close> is \<open>!!admin\<close>.
  The result is either a response (\<open>Inl\<close>) or the request handed to \<open>next()\<close>
  (\<open>Inr\<close>).
\<close>

definition whitelist_lookup ::
  "pg_error option \<Rightarrow> string list \<Rightarrow> string \<Rightarrow> db \<Rightarrow> jsobj result \<times> db" where
  "whitelist_lookup fault cols e d =
     (let (r, d') = select_rows fault AdminWhitelist (eq_filter ''email'' e) d
      in (single (map_sum id (map (project cols)) r), d'))"

definition authorize ::
  "string \<Rightarrow> pg_error option \<Rightarrow> db \<Rightarrow> request \<Rightarrow> (response + request) \<times> db" where
  "authorize role fault d req =
     (let (admin, d') = whitelist_lookup fault [''email'', ''department''] (email (user req)) d;
          isAdmin = \<not> isl admin
      in if role = ''admin'' then
           (case admin of
              Inr row \<Rightarrow> (Inr (req\<lparr>user := (user req)\<lparr>department := row ''department''\<rparr>\<rparr>), d')
            | Inl e \<Rightarrow> (Inl (reply 403 (JsonError ''Admin access required'')), d'))
         else if role = ''user'' then
           (let isUser = \<not> isAdmin \<and> endsWith (email (user req)) ''@kpriet.ac.in''
            in if isUser then (Inr req, d')
               else (Inl (reply 403 (JsonError ''User access required (KPRIET domain)'')), d'))
         else (Inr req, d'))"

section \<open>Helper: validatePeriods\<close>

record validation =
  valid :: bool
  errorMsg :: "string option"

text \<open>
  \<open>.in('period_number', periods)\<close>: the column is one of the listed values. The
  client builds the filter from the value list while the query is put together, before
  anything is sent to the store. Of an array it lists the elements. The client is not part
  of the repository, and what it does with anything else depends on its version: it
  throws a \<open>TypeError\<close> (\<open>Inl\<close>, of which only the message is read), or it goes through
  the value as an iterable. That is the host's \<open>non_array\<close>.
\<close>

definition in_values :: "env \<Rightarrow> jsval option \<Rightarrow> pg_error + jsval list" where
  "in_values en v = (case v of Some (JArr xs) \<Rightarrow> Inr xs | _ \<Rightarrow> non_array en v)"

text \<open>
  The listed values are compared as the client prints them, which is exact for numbers
  and for strings without commas, quotes or parentheses. The rows the filter lets through
  are fetched and never read.
\<close>

definition in_filter :: "string \<Rightarrow> jsval list \<Rightarrow> jsobj \<Rightarrow> bool" where
  "in_filter col xs r \<longleftrightarrow> (\<exists>x \<in> set xs. eq_filter col (js_string x) r)"

text \<open>
  The fetched \<open>timings\<close> are bound and never read. An exception of the filter builder
  leaves the function before the fetch, and a failed fetch is thrown (\<open>Inl\<close>); otherwise
  both dates are rebuilt from their local year, month and day and compared.
\<close>

definition validatePeriods ::
  "env \<Rightarrow> pg_error option \<Rightarrow> db \<Rightarrow> jsval option \<Rightarrow> jsval option \<Rightarrow> jsval option
     \<Rightarrow> validation result \<times> db" where
  "validatePeriods en fault d year periods dateStr =
     (case in_values en periods of
        Inl e \<Rightarrow> (Inl e, d)
      | Inr values \<Rightarrow>
          (let (fetched, d') =
                 select_rows fault YearPeriodTimings
                   (\<lambda>r. eq_filter ''year'' (js_string_opt year) r
                        \<and> in_filter ''period_number'' values r) d
           in case fetched of
                Inl e \<Rightarrow> (Inl e, d')
              | Inr timings \<Rightarrow>
                  (let requestDate = newDate en dateStr;
                       now = Some (now en);
                       reqDateNormalized =
                         Date_ymd (localTZA en) (getFullYear (localTZA en) requestDate)
                           (getMonth (localTZA en) requestDate) (getDate (localTZA en) requestDate);
                       nowDateNormalized =
                         Date_ymd (localTZA en) (getFullYear (localTZA en) now)
                           (getMonth (localTZA en) now) (getDate (localTZA en) now)
                   in if date_lt reqDateNormalized nowDateNormalized
                      then (Inr \<lparr>valid = False,
                                errorMsg = Some ''Cannot apply for OD on past dates.''\<rparr>, d')
                      else (Inr \<lparr>valid = True, errorMsg = None\<rparr>, d'))))"

section \<open>Route handlers\<close>

text \<open>
  Each handler maps the host, the store's replies, the store and the request to the
  response and the store afterwards. The \<open>catch\<close> of every handler answers 500 with
  \<open>err.message\<close>.
\<close>

type_synonym handler = "env \<Rightarrow> store_replies \<Rightarrow> db \<Rightarrow> request \<Rightarrow> response \<times> db"

definition caught :: "pg_error \<Rightarrow> response" where
  "caught err = reply 500 (JsonError (message err))"

text \<open>\<open>GET /api/timings/:year\<close>\<close>

definition get_timings :: handler where
  "get_timings en sr d req =
     (let (r, d') = select_rows (main_fault sr) YearPeriodTimings (eq_filter ''year'' (param req)) d
      in case r of
           Inl e \<Rightarrow> (caught e, d')
         | Inr data \<Rightarrow> (reply 200 (JsonRows (order_by ''period_number'' True data)), d'))"

text \<open>\<open>GET /api/user/:id\<close>\<close>

definition get_user :: handler where
  "get_user en sr d req =
     (let (allowed, d1) =
            (if sub (user req) \<noteq> param req
             then (let (admin, d') = whitelist_lookup (lookup_fault sr) [''email''] (email (user req)) d
                   in (\<not> isl admin, d'))
             else (True, d))
      in if \<not> allowed then (reply 403 (JsonError ''Unauthorized''), d1)
         else
           (let (r, d2) = select_rows (main_fault sr) Users (eq_filter ''id'' (param req)) d1
            in case single r of
                 Inl e \<Rightarrow>
                   (if code e = ''PGRST116'' then (reply 404 (JsonError ''User not found''), d2)
                    else (caught e, d2))
               | Inr data \<Rightarrow> (reply 200 (JsonRow data), d2)))"

text \<open>\<open>POST /api/user\<close>\<close>

definition post_user :: handler where
  "post_user en sr d req =
     (if Some (JStr (sub (user req))) \<noteq> body req ''id''
      then (reply 403 (JsonError ''Cannot update other users''), d)
      else
        (let (r, d') = upsert_row (main_fault sr) (generated_columns sr) Users [''id''] (body req) d
         in case single r of
              Inl e \<Rightarrow> (caught e, d')
            | Inr data \<Rightarrow> (reply 200 (JsonRow data), d')))"

text \<open>\<open>POST /api/od/request\<close>, behind \<open>authorize('user')\<close>\<close>

definition post_od_request :: handler where
  "post_od_request en sr d req =
     (if body req ''user_id'' \<noteq> Some (JStr (sub (user req)))
      then (reply 403 (JsonError ''User ID mismatch''), d)
      else
        (let (validation, d1) =
               validatePeriods en (timings_fault sr) d
                 (body req ''year'') (body req ''periods'') (body req ''date'')
         in case validation of
              Inl e \<Rightarrow> (caught e, d1)
            | Inr v \<Rightarrow>
                (if \<not> valid v
                 then (reply 400 (JsonError (case errorMsg v of Some m \<Rightarrow> m | None \<Rightarrow> [])), d1)
                 else
                   (let (r, d2) =
                          insert_row (main_fault sr) (generated_columns sr) OdRequests (body req) d1
                    in case single r of
                         Inl e \<Rightarrow> (caught e, d2)
                       | Inr data \<Rightarrow> (reply 201 (JsonRow data), d2)))))"

text \<open>\<open>GET /api/od/history/:userId\<close>\<close>

definition get_od_history :: handler where
  "get_od_history en sr d req =
     (let (allowed, d1) =
            (if sub (user req) \<noteq> param req
             then (let (admin, d') = whitelist_lookup (lookup_fault sr) [''email''] (email (user req)) d
                   in (\<not> isl admin, d'))
             else (True, d))
      in if \<not> allowed then (reply 403 (JsonError ''Unauthorized''), d1)
         else
           (let (r, d2) = select_rows (main_fault sr) OdRequests (eq_filter ''user_id'' (param req)) d1
            in case r of
                 Inl e \<Rightarrow> (caught e, d2)
               | Inr data \<Rightarrow> (reply 200 (JsonRows (order_by ''submitted_at'' False data)), d2)))"

text \<open>
  \<open>GET /api/od/pending\<close>, behind \<open>authorize('admin')\<close>. Every row comes with the
  \<open>name\<close> and \<open>email\<close> of the user it references, or \<open>null\<close>.
\<close>

definition with_user :: "jsobj list \<Rightarrow> jsobj \<Rightarrow> jsobj" where
  "with_user us r =
     r(''users'' \<mapsto>
        (case find (\<lambda>u. \<not> is_null (r ''user_id'') \<and> u ''id'' = r ''user_id'') us of
           None \<Rightarrow> JNull
         | Some u \<Rightarrow>
             JObj [(''name'', case u ''name'' of None \<Rightarrow> JNull | Some v \<Rightarrow> v),
                   (''email'', case u ''email'' of None \<Rightarrow> JNull | Some v \<Rightarrow> v)]))"

definition department_filter :: "request \<Rightarrow> jsobj \<Rightarrow> bool" where
  "department_filter req r =
     (if truthy (department (user req))
      then eq_filter ''department'' (js_string_opt (department (user req))) r
      else True)"

definition get_od_pending :: handler where
  "get_od_pending en sr d req =
     (let (r, d') =
            select_rows (main_fault sr) OdRequests
              (\<lambda>row. eq_filter ''status'' ''pending'' row \<and> department_filter req row) d
      in case r of
           Inl e \<Rightarrow> (caught e, d')
         | Inr data \<Rightarrow>
             (reply 200 (JsonRows (order_by ''submitted_at'' True (map (with_user (tables d Users)) data))),
              d'))"

text \<open>
  \<open>PUT /api/od/review/:id\<close>, behind \<open>authorize('admin')\<close>. A property of the update
  that is \<open>undefined\<close> is not sent.
\<close>

definition review_changes :: "env \<Rightarrow> request \<Rightarrow> jsobj" where
  "review_changes en req =
     (\<lambda>k. if k = ''status'' then body req ''status''
          else if k = ''remarks'' then body req ''remarks''
          else if k = ''reviewed_by'' then body req ''reviewedBy''
          else if k = ''reviewed_at'' then Some (JStr (nowISO en))
          else None)"

definition put_od_review :: handler where
  "put_od_review en sr d req =
     (if body req ''reviewedBy'' \<noteq> Some (JStr (sub (user req)))
      then (reply 403 (JsonError ''Reviewer ID mismatch''), d)
      else
        (let (r, d') =
               update_single (main_fault sr) OdRequests (eq_filter ''id'' (param req))
                 (review_changes en req) d
         in case r of
              Inl e \<Rightarrow> (caught e, d')
            | Inr data \<Rightarrow> (reply 200 (JsonRow data), d')))"

text \<open>\<open>GET /api/reports/summary\<close>, behind \<open>authorize('admin')\<close>\<close>

text \<open>
  The two counters are plain objects, counted with \<open>(o[k] || 0) + 1\<close>. A key the object
  does not own reads as \<open>undefined\<close> unless it names a member inherited from
  \<open>Object.prototype\<close>: then it reads as that native function, whose text Node prints as
  below, and adding 1 to a function or to a string appends the character 1 to its text.
  The key \<open>__proto__\<close> reads as the prototype and cannot be set to a string, so it is
  never stored.
\<close>

definition inherited_member :: "string \<Rightarrow> string option" where
  "inherited_member k =
     map_of
       [(''constructor'', ''Object''),
        (''toString'', ''toString''),
        (''toLocaleString'', ''toLocaleString''),
        (''valueOf'', ''valueOf''),
        (''hasOwnProperty'', ''hasOwnProperty''),
        (''isPrototypeOf'', ''isPrototypeOf''),
        (''propertyIsEnumerable'', ''propertyIsEnumerable''),
        (''__defineGetter__'', ''__defineGetter__''),
        (''__defineSetter__'', ''__defineSetter__''),
        (''__lookupGetter__'', ''__lookupGetter__''),
        (''__lookupSetter__'', ''__lookupSetter__'')] k"

definition native_source :: "string \<Rightarrow> string" where
  "native_source name = ''function '' @ name @ ''() { [native code] }''"

text \<open>\<open>v + 1\<close> for a truthy \<open>v\<close>: addition on numbers and booleans, concatenation otherwise.\<close>

fun plus_one :: "jsval \<Rightarrow> jsval" where
  "plus_one (JNum c) = JNum (c + 1)"
| "plus_one (JBool b) = JNum ((if b then 1 else 0) + 1)"
| "plus_one JNull = JNum 1"
| "plus_one v = JStr (js_string v @ ''1'')"

definition bump :: "jsobj \<Rightarrow> string \<Rightarrow> jsobj" where
  "bump m k =
     (if k = ''__proto__'' then m
      else (case m k of
              Some v \<Rightarrow> m(k \<mapsto> (if truthy (Some v) then plus_one v else JNum 1))
            | None \<Rightarrow>
                (case inherited_member k of
                   None \<Rightarrow> m(k \<mapsto> JNum 1)
                 | Some name \<Rightarrow> m(k \<mapsto> JStr (native_source name @ ''1'')))))"

definition summary_stats :: "jsobj list \<Rightarrow> stats" where
  "summary_stats data =
     \<lparr>total = length data,
      approved = length (filter (\<lambda>r. r ''status'' = Some (JStr ''approved'')) data),
      pending = length (filter (\<lambda>r. r ''status'' = Some (JStr ''pending'')) data),
      rejected = length (filter (\<lambda>r. r ''status'' = Some (JStr ''rejected'')) data),
      deptDistribution = foldl (\<lambda>m r. bump m (js_string_opt (r ''department''))) Map.empty data,
      categoryUsage = foldl (\<lambda>m r. bump m (js_string_opt (r ''od_category''))) Map.empty data\<rparr>"

definition get_reports_summary :: handler where
  "get_reports_summary en sr d req =
     (let (r, d') = select_rows (main_fault sr) OdRequests (department_filter req) d
      in case r of
           Inl e \<Rightarrow> (caught e, d')
         | Inr rows \<Rightarrow>
             (reply 200
                (JsonStats (summary_stats (map (project [''status'', ''department'', ''od_category'']) rows))),
              d'))"

text \<open>\<open>GET /api/reports/export\<close>, behind \<open>authorize('admin')\<close>\<close>

definition csv_line :: "jsobj \<Rightarrow> string" where
  "csv_line r =
     js_string_opt (r ''reg_number'') @ '','' @ js_string_opt (r ''department'') @ '','' @
     js_string_opt (r ''year'') @ '','' @ js_string_opt (r ''od_category'') @ '','' @
     js_string_opt (r ''date'') @ '','' @ js_string_opt (r ''status'')"

definition csv_headers :: string where
  "csv_headers = ''Reg Number,Dept,Year,Category,Date,Status'' @ [CHR 0x0A]"

definition get_reports_export :: handler where
  "get_reports_export en sr d req =
     (let (r, d') = select_rows (main_fault sr) OdRequests (\<lambda>row. True) d
      in case r of
           Inl e \<Rightarrow> (caught e, d')
         | Inr rows \<Rightarrow>
             (let data =
                    map (project [''reg_number'', ''department'', ''year'', ''od_category'', ''date'', ''status''])
                      (order_by ''submitted_at'' False rows)
              in (reply 200 (Csv (csv_headers @ join [CHR 0x0A] (map csv_line data))), d')))"

text \<open>The whitelist and timing administration, behind \<open>authorize('admin')\<close>.\<close>

definition get_admin_whitelist :: handler where
  "get_admin_whitelist en sr d req =
     (let (r, d') = select_rows (main_fault sr) AdminWhitelist (\<lambda>row. True) d
      in case r of
           Inl e \<Rightarrow> (caught e, d')
         | Inr data \<Rightarrow> (reply 200 (JsonRows data), d'))"

definition post_admin_whitelist :: handler where
  "post_admin_whitelist en sr d req =
     (let (r, d') = insert_row (main_fault sr) (generated_columns sr) AdminWhitelist (body req) d
      in case single r of
           Inl e \<Rightarrow> (caught e, d')
         | Inr data \<Rightarrow> (reply 201 (JsonRow data), d'))"

definition delete_admin_whitelist :: handler where
  "delete_admin_whitelist en sr d req =
     (let (r, d') = delete_rows (main_fault sr) AdminWhitelist (eq_filter ''email'' (param req)) d
      in case r of
           Inl e \<Rightarrow> (caught e, d')
         | Inr u \<Rightarrow> (reply 204 NoContent, d'))"

definition post_admin_timings :: handler where
  "post_admin_timings en sr d req =
     (let (r, d') =
            upsert_row (main_fault sr) (generated_columns sr) YearPeriodTimings
              [''year'', ''period_number''] (body req) d
      in case r of
           Inl e \<Rightarrow> (caught e, d')
         | Inr data \<Rightarrow> (reply 200 (JsonRows data), d'))"

text \<open>
  A route with \<open>authorize(role)\<close> before its handler: the handler runs on the request
  the middleware passes on, or the middleware's response is the answer.
\<close>

definition guarded :: "string \<Rightarrow> handler \<Rightarrow> handler" where
  "guarded role h en sr d req =
     (case authorize role (lookup_fault sr) d req of
        (Inl resp, d') \<Rightarrow> (resp, d')
      | (Inr req', d') \<Rightarrow> h en sr d' req')"

definition route_od_request :: handler where
  "route_od_request = guarded ''user'' post_od_request"

definition route_od_pending :: handler where
  "route_od_pending = guarded ''admin'' get_od_pending"

definition route_od_review :: handler where
  "route_od_review = guarded ''admin'' put_od_review"

definition route_reports_summary :: handler where
  "route_reports_summary = guarded ''admin'' get_reports_summary"

definition route_reports_export :: handler where
  "route_reports_export = guarded ''admin'' get_reports_export"

section \<open>Notions the properties are stated with\<close>

text \<open>An email is in the whitelist when some row of the table carries it.\<close>

definition whitelisted :: "db \<Rightarrow> string \<Rightarrow> bool" where
  "whitelisted d e \<longleftrightarrow> (\<exists>r \<in> set (tables d AdminWhitelist). eq_filter ''email'' e r)"


text \<open>
  What \<open>validatePeriods\<close> does to each of its two dates: the date rebuilt from its
  local year, month and day.
\<close>

definition normalized :: "zone \<Rightarrow> jsnum \<Rightarrow> jsnum" where
  "normalized z d = Date_ymd z (getFullYear z d) (getMonth z d) (getDate z d)"

text \<open>The local calendar day of a time value, as a day number, and its local midnight.\<close>

definition local_day :: "zone \<Rightarrow> int \<Rightarrow> int" where
  "local_day z t = Day (LocalTime z t)"

definition local_midnight :: "zone \<Rightarrow> int \<Rightarrow> int" where
  "local_midnight z t = UTC z (MakeDate (local_day z t) 0)"

text \<open>
  What is assumed of the zone rules of a host: every offset is less than a day, and from
  one local midnight to the next the offset grows by less than a day, so that the zone
  skips no calendar day. Daylight saving moves the offset by an hour or two.
\<close>

definition zone_regular :: "zone \<Rightarrow> bool" where
  "zone_regular z \<longleftrightarrow>
     (\<forall>t b. abs (z t b) < msPerDay)
     \<and> (\<forall>a. z ((a + 1) * msPerDay) False - z (a * msPerDay) False < msPerDay)"

text \<open>
  A date string names a past date when it parses to a date whose local day is before
  today's local day, the local midnight of that day not lying below the range of dates.
\<close>

definition past_date :: "env \<Rightarrow> jsval option \<Rightarrow> bool" where
  "past_date en ds \<longleftrightarrow>
     (case newDate en ds of
        None \<Rightarrow> False
      | Some t \<Rightarrow>
          - maxTime \<le> local_midnight (localTZA en) t
          \<and> local_day (localTZA en) t < local_day (localTZA en) (now en))"


section \<open>Example data\<close>

text \<open>
  A small store: one administrator scoped to the department CSE, one student, and two
  OD requests of different departments, the second of them already reviewed.
\<close>

definition hod_row :: jsobj where
  "hod_row = [''email'' \<mapsto> JStr ''hod.cse@kpriet.ac.in'', ''department'' \<mapsto> JStr ''CSE'']"

definition student_row :: jsobj where
  "student_row =
     [''id'' \<mapsto> JStr ''u1'', ''name'' \<mapsto> JStr ''Asha'', ''email'' \<mapsto> JStr ''asha@kpriet.ac.in'',
      ''department'' \<mapsto> JStr ''CSE'', ''year'' \<mapsto> JNum 2]"

definition od_cse :: jsobj where
  "od_cse =
     [''id'' \<mapsto> JStr ''r1'', ''user_id'' \<mapsto> JStr ''u1'', ''reg_number'' \<mapsto> JStr ''21CS001'',
      ''department'' \<mapsto> JStr ''CSE'', ''year'' \<mapsto> JNum 2, ''od_category'' \<mapsto> JStr ''sports'',
      ''date'' \<mapsto> JStr ''2099-01-01'', ''status'' \<mapsto> JStr ''pending'',
      ''submitted_at'' \<mapsto> JStr ''2026-01-05T09:00:00Z'']"

definition od_ece :: jsobj where
  "od_ece =
     [''id'' \<mapsto> JStr ''r2'', ''user_id'' \<mapsto> JStr ''u2'', ''reg_number'' \<mapsto> JStr ''21EC007'',
      ''department'' \<mapsto> JStr ''ECE'', ''year'' \<mapsto> JNum 3, ''od_category'' \<mapsto> JStr ''symposium'',
      ''date'' \<mapsto> JStr ''2099-02-01'', ''status'' \<mapsto> JStr ''approved'',
      ''reviewed_by'' \<mapsto> JStr ''a1'', ''submitted_at'' \<mapsto> JStr ''2026-01-06T09:00:00Z'']"

definition example_tables :: "table \<Rightarrow> jsobj list" where
  "example_tables t =
     (case t of
        AdminWhitelist \<Rightarrow> [hod_row]
      | Users \<Rightarrow> [student_row]
      | YearPeriodTimings \<Rightarrow> []
      | OdRequests \<Rightarrow> [od_cse, od_ece])"

definition example_db :: db where
  "example_db = \<lparr>tables = example_tables, oplog = []\<rparr>"

definition admin_claims :: claims where
  "admin_claims = \<lparr>sub = ''a1'', email = ''hod.cse@kpriet.ac.in'', department = None\<rparr>"

definition student_claims :: claims where
  "student_claims = \<lparr>sub = ''u1'', email = ''asha@kpriet.ac.in'', department = None\<rparr>"


definition admin_request :: request where
  "admin_request = \<lparr>user = admin_claims, param = [], body = Map.empty\<rparr>"

definition student_request :: request where
  "student_request = \<lparr>user = student_claims, param = [], body = Map.empty\<rparr>"



text \<open>The client of this host throws for every value list that is not an array.\<close>

definition type_error :: pg_error where
  "type_error = \<lparr>code = [], message = ''values.map is not a function''\<rparr>"

definition fixed_zone :: "int \<Rightarrow> zone" where
  "fixed_zone offset = (\<lambda>t isUTC. offset)"

text \<open>
  A host in a zone that is always at UTC+5:30, on 3 November 2026, 06:00 UTC, whose parser
  reads the date-only strings below as midnight UTC, the string
  \<open>-271821-04-20T00:00:00.000Z\<close> as the earliest time value there is, and anything
  else here as an invalid date.
\<close>

definition example_parse :: "jsval option \<Rightarrow> jsnum" where
  "example_parse v =
     (if v = Some (JStr ''2099-01-01'') then Some 4070908800000
      else if v = Some (JStr ''2020-01-01'') then Some 1577836800000
      else if v = Some (JStr ''-271821-04-20T00:00:00.000Z'') then Some (- 8640000000000000)
      else None)"

definition example_env :: env where
  "example_env =
     \<lparr>now = 1793685600000, nowISO = ''2026-11-03T06:00:00.000Z'',
      localTZA = fixed_zone 19800000, newDate = example_parse,
      non_array = (\<lambda>v. Inl type_error)\<rparr>"

text \<open>
  A host in New York on 1 November 2026, 15:00 UTC, the day daylight saving ends: the
  offset is four hours west of UTC until 06:00 UTC (02:00 local time) and five hours
  afterwards. Its parser reads the two strings below as the instants they name.
\<close>

definition new_york_zone :: zone where
  "new_york_zone t isUTC =
     (if isUTC then (if t < 1793512800000 then - 14400000 else - 18000000)
      else (if t < 1793498400000 then - 14400000 else - 18000000))"

definition new_york_parse :: "jsval option \<Rightarrow> jsnum" where
  "new_york_parse v =
     (if v = Some (JStr ''2026-11-01T04:30:00Z'') then Some 1793507400000
      else if v = Some (JStr ''2026-11-01T03:30:00Z'') then Some 1793503800000
      else None)"

definition new_york_env :: env where
  "new_york_env =
     \<lparr>now = 1793545200000, nowISO = ''2026-11-01T15:00:00.000Z'',
      localTZA = new_york_zone, newDate = new_york_parse,
      non_array = (\<lambda>v. Inl type_error)\<rparr>"

text \<open>
  A store that answers every call, one that fails the handler's own operation with a
  timeout, and one that fails the whitelist lookup.
\<close>

definition no_faults :: store_replies where
  "no_faults =
     \<lparr>lookup_fault = None, timings_fault = None, main_fault = None,
      generated_columns = [''id'' \<mapsto> JStr ''r3'', ''submitted_at'' \<mapsto> JStr ''2026-11-03T06:00:00Z'']\<rparr>"

definition timeout_error :: pg_error where
  "timeout_error = \<lparr>code = ''57014'', message = ''canceling statement due to statement timeout''\<rparr>"

definition outage :: store_replies where
  "outage = no_faults\<lparr>main_fault := Some timeout_error\<rparr>"

definition lookup_outage :: store_replies where
  "lookup_outage = no_faults\<lparr>lookup_fault := Some timeout_error\<rparr>"

definition od_body :: jsobj where
  "od_body =
     [''user_id'' \<mapsto> JStr ''u1'', ''year'' \<mapsto> JNum 2, ''periods'' \<mapsto> JArr [JNum 1, JNum 2],
      ''date'' \<mapsto> JStr ''2099-01-01'']"

definition create_request :: request where
  "create_request = \<lparr>user = student_claims, param = [], body = od_body\<rparr>"

definition review_request :: "string \<Rightarrow> string \<Rightarrow> request" where
  "review_request rid verdict =
     \<lparr>user = admin_claims, param = rid,
      body = [''status'' \<mapsto> JStr verdict, ''remarks'' \<mapsto> JStr ''seen'', ''reviewedBy'' \<mapsto> JStr ''a1'']\<rparr>"

section \<open>Properties of the store calls\<close>





lemma whitelist_lookup_db:
  "snd (whitelist_lookup f cols e d) = logged (OpSelect AdminWhitelist) d"
  by (simp add: whitelist_lookup_def select_rows_def)

lemma whitelist_lookup_fault:
  "fst (whitelist_lookup (Some x) cols e d) = Inl x"
  by (simp add: whitelist_lookup_def select_rows_def)




lemma whitelist_lookup_data:
  assumes "fst (whitelist_lookup f cols e d) = Inr row"
  shows "\<exists>r \<in> set (tables d AdminWhitelist). eq_filter ''email'' e r \<and> row = project cols r"
proof -
  let ?rs = "filter (eq_filter ''email'' e) (tables d AdminWhitelist)"
  from assms obtain z where z: "?rs = [z]" "row = project cols z"
    by (auto simp: whitelist_lookup_def select_rows_def split: option.splits
        simp del: eq_filter.simps elim!: single.elims)
  have "z \<in> set ?rs" using z(1) by (simp del: eq_filter.simps set_filter)
  then have "z \<in> set (tables d AdminWhitelist)" "eq_filter ''email'' e z"
    by (simp_all del: eq_filter.simps)
  with z(2) show ?thesis by blast
qed

lemma whitelist_lookup_admin_only:
  "\<not> isl (fst (whitelist_lookup f cols e d)) \<Longrightarrow> whitelisted d e"
  using whitelist_lookup_data[of f cols e d]
  by (cases "fst (whitelist_lookup f cols e d)") (auto simp: whitelisted_def simp del: eq_filter.simps)

section \<open>Properties of authorize\<close>





lemma example_student_not_whitelisted: "\<not> whitelisted example_db ''asha@kpriet.ac.in''"
  by (simp add: whitelisted_def example_db_def example_tables_def hod_row_def)



text \<open>
  C10. For a role tag other than \<open>admin\<close> and \<open>user\<close> the middleware passes every
  request on unchanged, whatever the whitelist holds and whatever the lookup answers; it
  never responds itself.
\<close>

theorem authorize_other_role:
  "role \<noteq> ''admin'' \<Longrightarrow> role \<noteq> ''user'' \<Longrightarrow>
   authorize role fault d req = (Inr req, logged (OpSelect AdminWhitelist) d)"
  using whitelist_lookup_db[of fault "[''email'', ''department'']" "email (user req)" d]
  by (simp add: authorize_def split_beta prod_eq_iff)

theorem authorize_other_role_witness:
  "''moderator'' \<noteq> ''admin'' \<and> ''moderator'' \<noteq> ''user''
   \<and> authorize ''moderator'' None example_db admin_request =
       (Inr admin_request, logged (OpSelect AdminWhitelist) example_db)
   \<and> authorize ''moderator'' (Some PGRST116) example_db student_request =
       (Inr student_request, logged (OpSelect AdminWhitelist) example_db)"
  using authorize_other_role[of "''moderator''" None example_db admin_request]
    authorize_other_role[of "''moderator''" "Some PGRST116" example_db student_request]
  by simp

section \<open>Properties of the profile handlers\<close>

lemma get_user_forbidden:
  assumes "sub (user req) \<noteq> param req" "\<not> whitelisted d (email (user req))"
  shows "get_user en sr d req =
           (reply 403 (JsonError ''Unauthorized''), logged (OpSelect AdminWhitelist) d)"
proof -
  have "isl (fst (whitelist_lookup (lookup_fault sr) [''email''] (email (user req)) d))"
    using whitelist_lookup_admin_only[of "lookup_fault sr" "[''email'']" "email (user req)" d] assms(2)
    by blast
  then show ?thesis
    using assms(1) whitelist_lookup_db[of "lookup_fault sr" "[''email'']" "email (user req)" d]
    by (simp add: get_user_def split_beta)
qed

lemma get_user_row_only:
  assumes "content (fst (get_user en sr d req)) = JsonRow row"
  shows "sub (user req) = param req \<or> whitelisted d (email (user req))"
proof (rule ccontr)
  assume "\<not> ?thesis"
  then have "get_user en sr d req =
      (reply 403 (JsonError ''Unauthorized''), logged (OpSelect AdminWhitelist) d)"
    using get_user_forbidden by blast
  with assms show False by (simp add: reply_def)
qed

lemma post_user_forbidden:
  "body req ''id'' \<noteq> Some (JStr (sub (user req))) \<Longrightarrow>
   post_user en sr d req = (reply 403 (JsonError ''Cannot update other users''), d)"
  by (auto simp add: post_user_def)

lemma post_user_proceeds:
  "body req ''id'' = Some (JStr (sub (user req))) \<Longrightarrow>
   snd (post_user en sr d req) =
     snd (upsert_row (main_fault sr) (generated_columns sr) Users [''id''] (body req) d)"
  by (simp add: post_user_def split_beta split: sum.splits)

section \<open>Properties of the OD request handlers\<close>

lemma post_od_request_mismatch:
  "body req ''user_id'' \<noteq> Some (JStr (sub (user req))) \<Longrightarrow>
   post_od_request en sr d req = (reply 403 (JsonError ''User ID mismatch''), d)"
  by (simp add: post_od_request_def)

lemma put_od_review_mismatch:
  "body req ''reviewedBy'' \<noteq> Some (JStr (sub (user req))) \<Longrightarrow>
   put_od_review en sr d req = (reply 403 (JsonError ''Reviewer ID mismatch''), d)"
  by (simp add: put_od_review_def)

lemma validatePeriods_tables:
  "tables (snd (validatePeriods en f d y p ds)) = tables d"
  by (simp add: validatePeriods_def select_rows_def logged_def split_beta Let_def
      split: sum.splits option.splits)

lemma post_od_request_rows:
  "tables (snd (post_od_request en sr d req)) = tables d
   \<or> (\<exists>row. tables (snd (post_od_request en sr d req)) =
               (tables d)(OdRequests := tables d OdRequests @ [row])
        \<and> row ''user_id'' = Some (JStr (sub (user req)))
        \<and> row = column_defaults OdRequests (generated_columns sr) ++ body req)"
  using validatePeriods_tables[of en "timings_fault sr" d "body req ''year''"
      "body req ''periods''" "body req ''date''"]
  by (auto simp add: post_od_request_def insert_row_def logged_def set_rows_def split_beta Let_def
      split: sum.splits option.splits)

lemma put_od_review_rows:
  "length (tables (snd (put_od_review en sr d req)) OdRequests) = length (tables d OdRequests)
   \<and> (\<forall>i < length (tables d OdRequests).
        tables (snd (put_od_review en sr d req)) OdRequests ! i = tables d OdRequests ! i
        \<or> (tables (snd (put_od_review en sr d req)) OdRequests ! i) ''reviewed_by''
            = Some (JStr (sub (user req))))"
  by (auto simp add: put_od_review_def update_single_def logged_def set_rows_def review_changes_def
      split_beta Let_def map_add_def
      split: sum.splits option.splits list.splits simp del: eq_filter.simps)

section \<open>Properties of the calendar\<close>

lemma div_step:
  fixes x m :: int
  assumes "0 < m"
  shows "(x + 1) div m = x div m + (if (x + 1) mod m = 0 then 1 else 0)"
proof -
  define q where "q = (x + 1) div m"
  define r where "r = (x + 1) mod m"
  have eq: "x + 1 = m * q + r" by (simp add: q_def r_def)
  have r: "0 \<le> r" "r < m" using assms by (simp_all add: r_def)
  show ?thesis
  proof (cases "r = 0")
    case True
    have h: "x = m * (q - 1) + (m - 1)" using eq True by (simp add: algebra_simps)
    have "x div m = q - 1"
      by (rule int_div_pos_eq[of x m "q - 1" "m - 1"]) (use h assms in simp_all)
    with True show ?thesis by (simp add: q_def[symmetric] r_def[symmetric])
  next
    case False
    have h: "x = m * q + (r - 1)" using eq by (simp add: algebra_simps)
    have "x div m = q"
      by (rule int_div_pos_eq[of x m q "r - 1"]) (use h r False in simp_all)
    with False show ?thesis by (simp add: q_def[symmetric] r_def[symmetric])
  qed
qed


lemma mod4: "((y::int) - 1969 + 1) mod 4 = y mod 4"
proof -
  have "y - 1969 + 1 = y + (- 492) * 4" by simp
  then show ?thesis by (simp only: mod_mult_self1)
qed

lemma mod100: "((y::int) - 1901 + 1) mod 100 = y mod 100"
proof -
  have "y - 1901 + 1 = y + (- 19) * 100" by simp
  then show ?thesis by (simp only: mod_mult_self1)
qed

lemma mod400: "((y::int) - 1601 + 1) mod 400 = y mod 400"
proof -
  have "y - 1601 + 1 = y + (- 4) * 400" by simp
  then show ?thesis by (simp only: mod_mult_self1)
qed

lemma m100_4: "(y::int) mod 100 = 0 \<Longrightarrow> y mod 4 = 0"
proof -
  assume "y mod 100 = 0"
  then have "100 dvd y" by (simp add: dvd_eq_mod_eq_0)
  moreover have "(4::int) dvd 100" by simp
  ultimately have "4 dvd y" by (rule dvd_trans[rotated])
  then show ?thesis by (simp add: dvd_eq_mod_eq_0)
qed

lemma m400_100: "(y::int) mod 400 = 0 \<Longrightarrow> y mod 100 = 0"
proof -
  assume "y mod 400 = 0"
  then have "400 dvd y" by (simp add: dvd_eq_mod_eq_0)
  moreover have "(100::int) dvd 400" by simp
  ultimately have "100 dvd y" by (rule dvd_trans[rotated])
  then show ?thesis by (simp add: dvd_eq_mod_eq_0)
qed

lemma DayFromYear_Suc: "DayFromYear (y + 1) = DayFromYear y + DaysInYear y"
proof -
  have a: "(y + 1 - 1969) div 4 = (y - 1969) div 4 + (if y mod 4 = 0 then 1 else 0)"
    using div_step[of 4 "y - 1969"] mod4[of y] by (simp add: algebra_simps)
  have b: "(y + 1 - 1901) div 100 = (y - 1901) div 100 + (if y mod 100 = 0 then 1 else 0)"
    using div_step[of 100 "y - 1901"] mod100[of y] by (simp add: algebra_simps)
  have c: "(y + 1 - 1601) div 400 = (y - 1601) div 400 + (if y mod 400 = 0 then 1 else 0)"
    using div_step[of 400 "y - 1601"] mod400[of y] by (simp add: algebra_simps)
  show ?thesis
  proof (cases "y mod 4 = 0")
    case False
    then have "y mod 100 \<noteq> 0" using m100_4[of y] by auto
    moreover from this have "y mod 400 \<noteq> 0" using m400_100[of y] by auto
    ultimately show ?thesis unfolding DayFromYear_def DaysInYear_def a b c by simp
  next
    case True
    show ?thesis
    proof (cases "y mod 100 = 0")
      case False
      then have "y mod 400 \<noteq> 0" using m400_100[of y] by auto
      with True False show ?thesis unfolding DayFromYear_def DaysInYear_def a b c by simp
    next
      case h: True
      with True show ?thesis unfolding DayFromYear_def DaysInYear_def a b c by simp
    qed
  qed
qed


lemma DaysInYear_ge: "365 \<le> DaysInYear y"
  by (simp add: DaysInYear_def)

lemma DayFromYear_mono: "y \<le> y' \<Longrightarrow> DayFromYear y \<le> DayFromYear y'"
proof (induction y' rule: int_ge_induct)
  case base
  show ?case by simp
next
  case (step i)
  have "DayFromYear (i + 1) = DayFromYear i + DaysInYear i" by (rule DayFromYear_Suc)
  with step.IH DaysInYear_ge[of i] show ?case by simp
qed

lemma DayFromYear_cycle:
  assumes "0 \<le> c" "c \<le> 3" "0 \<le> q" "q \<le> 24" "0 \<le> a" "a \<le> 3"
  shows "DayFromYear (1601 + 400 * e + 100 * c + 4 * q + a)
           = 146097 * e + 36524 * c + 1461 * q + 365 * a - 134774"
proof -
  let ?y = "1601 + 400 * e + 100 * c + 4 * q + a"
  have d4: "(?y - 1969) div 4 = 100 * e + 25 * c + q - 92"
    by (rule int_div_pos_eq[where r = a]) (use assms in simp_all)
  have d100: "(?y - 1901) div 100 = 4 * e + c - 3"
    by (rule int_div_pos_eq[where r = "4 * q + a"]) (use assms in simp_all)
  have d400: "(?y - 1601) div 400 = e"
    by (rule int_div_pos_eq[where r = "100 * c + 4 * q + a"]) (use assms in simp_all)
  show ?thesis
    unfolding DayFromYear_def d4 d100 d400 by simp
qed


lemma YearFromDay_split:
  obtains e c q a w where
    "YearFromDay d = 1601 + 400 * e + 100 * c + 4 * q + a"
    "0 \<le> c" "c \<le> 3" "0 \<le> q" "q \<le> 24" "0 \<le> a" "a \<le> 3"
    "d = 146097 * e + 36524 * c + 1461 * q + 365 * a - 134774 + w"
    "0 \<le> w" "w \<le> 365" "w = 365 \<longrightarrow> a = 3 \<and> (q < 24 \<or> c = 3)"
proof -
  define n where "n = d + 134774"
  define e where "e = n div 146097"
  define r where "r = n mod 146097"
  define k where "k = r div 36524"
  define m where "m = r mod 36524"
  define c where "c = min 3 k"
  define r1 where "r1 = r - 36524 * c"
  define q where "q = r1 div 1461"
  define r2 where "r2 = r1 mod 1461"
  define j where "j = r2 div 365"
  define s where "s = r2 mod 365"
  define a where "a = min 3 j"
  define w where "w = r2 - 365 * a"
  have n: "n = 146097 * e + r" by (simp add: e_def r_def)
  have r: "0 \<le> r" "r < 146097" by (simp_all add: r_def)
  have rk: "r = 36524 * k + m" by (simp add: k_def m_def)
  have m: "0 \<le> m" "m < 36524" by (simp_all add: m_def)
  have k: "0 \<le> k" "k \<le> 4" using r rk m by linarith+
  have c: "0 \<le> c" "c \<le> 3" using k by (simp_all add: c_def)
  have r1: "0 \<le> r1" "r1 \<le> 36524" "c < 3 \<longrightarrow> r1 < 36524"
    using r rk m k unfolding r1_def c_def min_def by (auto split: if_splits)
  have r1q: "r1 = 1461 * q + r2" by (simp add: q_def r2_def)
  have r2: "0 \<le> r2" "r2 < 1461" by (simp_all add: r2_def)
  have q: "0 \<le> q" "q \<le> 24" using r1 r1q r2 by linarith+
  have r2j: "r2 = 365 * j + s" by (simp add: j_def s_def)
  have s: "0 \<le> s" "s < 365" by (simp_all add: s_def)
  have j: "0 \<le> j" "j \<le> 4" using r2 r2j s by linarith+
  have a: "0 \<le> a" "a \<le> 3" using j by (simp_all add: a_def)
  have w: "0 \<le> w" "w \<le> 365" "w = 365 \<longrightarrow> a = 3 \<and> (q < 24 \<or> c = 3)"
    using r2 r2j s j r1 r1q q c unfolding w_def a_def min_def by (auto split: if_splits)
  have y: "YearFromDay d = 1601 + 400 * e + 100 * c + 4 * q + a"
    by (simp add: YearFromDay_def year_in_era_def century_in_era_def year_in_century_def
        n_def e_def r_def k_def c_def r1_def q_def r2_def j_def a_def)
  have d: "d = 146097 * e + 36524 * c + 1461 * q + 365 * a - 134774 + w"
    using n r1q unfolding w_def r1_def n_def by simp
  from y c q a d w show ?thesis by (rule that)
qed


lemma DaysInYear_cycle:
  assumes "0 \<le> c" "c \<le> 3" "0 \<le> q" "q \<le> 24" "0 \<le> a" "a \<le> 3"
  shows "DaysInYear (1601 + 400 * e + 100 * c + 4 * q + a)
           = (if a = 3 \<and> (q < 24 \<or> c = 3) then 366 else 365)"
proof -
  let ?y = "1601 + 400 * e + 100 * c + 4 * q + a"
  show ?thesis
  proof (cases "a = 3")
    case False
    have "?y mod 4 = 1 + a"
      by (rule int_mod_pos_eq[where q = "400 + 100 * e + 25 * c + q"]) (use assms False in simp_all)
    then have "?y mod 4 \<noteq> 0" using assms by simp
    then show ?thesis using False unfolding DaysInYear_def by simp
  next
    case a3: True
    have m4: "?y mod 4 = 0"
      by (rule int_mod_pos_eq[where q = "401 + 100 * e + 25 * c + q"]) (use a3 in simp_all)
    show ?thesis
    proof (cases "q = 24")
      case False
      have "?y mod 100 = 4 + 4 * q"
        by (rule int_mod_pos_eq[where q = "16 + 4 * e + c"]) (use assms a3 False in simp_all)
      then have "?y mod 100 \<noteq> 0" using assms by simp
      then show ?thesis using m4 a3 False assms unfolding DaysInYear_def by simp
    next
      case q24: True
      have m100: "?y mod 100 = 0"
        by (rule int_mod_pos_eq[where q = "17 + 4 * e + c"]) (use a3 q24 in simp_all)
      show ?thesis
      proof (cases "c = 3")
        case True
        have "?y mod 400 = 0"
          by (rule int_mod_pos_eq[where q = "5 + e"]) (use a3 q24 True in simp_all)
        then show ?thesis using m4 m100 a3 q24 True unfolding DaysInYear_def by simp
      next
        case False
        have "?y mod 400 = 100 + 100 * c"
          by (rule int_mod_pos_eq[where q = "4 + e"]) (use assms a3 q24 False in simp_all)
        then have "?y mod 400 \<noteq> 0" using assms by simp
        then show ?thesis using m4 m100 a3 q24 False unfolding DaysInYear_def by simp
      qed
    qed
  qed
qed

lemma YearFromDay_bounds:
  "DayFromYear (YearFromDay d) \<le> d \<and> d < DayFromYear (YearFromDay d) + DaysInYear (YearFromDay d)"
proof -
  obtain e c q a w where
    y: "YearFromDay d = 1601 + 400 * e + 100 * c + 4 * q + a"
    and b: "0 \<le> c" "c \<le> 3" "0 \<le> q" "q \<le> 24" "0 \<le> a" "a \<le> 3"
    and d: "d = 146097 * e + 36524 * c + 1461 * q + 365 * a - 134774 + w"
    and w: "0 \<le> w" "w \<le> 365" "w = 365 \<longrightarrow> a = 3 \<and> (q < 24 \<or> c = 3)"
    by (rule YearFromDay_split)
  have f: "DayFromYear (YearFromDay d) = 146097 * e + 36524 * c + 1461 * q + 365 * a - 134774"
    unfolding y by (rule DayFromYear_cycle[OF b])
  have l: "DaysInYear (YearFromDay d) = (if a = 3 \<and> (q < 24 \<or> c = 3) then 366 else 365)"
    unfolding y by (rule DaysInYear_cycle[OF b])
  have "w < DaysInYear (YearFromDay d)"
    unfolding l using w by (cases "w = 365") auto
  with f d w(1) show ?thesis by linarith
qed

lemma YearFromDay_ge: "DayFromYear y \<le> d \<Longrightarrow> y \<le> YearFromDay d"
proof (rule ccontr)
  assume a: "DayFromYear y \<le> d" and "\<not> y \<le> YearFromDay d"
  then have "YearFromDay d + 1 \<le> y" by simp
  then have "DayFromYear (YearFromDay d + 1) \<le> DayFromYear y" by (rule DayFromYear_mono)
  with a YearFromDay_bounds[of d] DayFromYear_Suc[of "YearFromDay d"] show False by linarith
qed

lemma YearFromDay_less: "d < DayFromYear y \<Longrightarrow> YearFromDay d < y"
proof (rule ccontr)
  assume a: "d < DayFromYear y" and "\<not> YearFromDay d < y"
  then have "y \<le> YearFromDay d" by simp
  then have "DayFromYear y \<le> DayFromYear (YearFromDay d)" by (rule DayFromYear_mono)
  with a YearFromDay_bounds[of d] show False by linarith
qed


lemma DaysInYear_leap_flag: "DaysInYear y = 365 + leap_flag y"
  by (simp add: leap_flag_def DaysInYear_def)

lemma leap_flag_range: "leap_flag y = 0 \<or> leap_flag y = 1"
  by (simp add: leap_flag_def)

lemma month_of_day_range: "0 \<le> month_of_day l d \<and> month_of_day l d \<le> 11"
  by (simp add: month_of_day_def)

lemma month_start_range:
  "l = 0 \<or> l = 1 \<Longrightarrow> 0 \<le> month_start l m \<and> month_start l m \<le> 334 + l"
  by (auto simp add: month_start_def)

lemma date_in_month:
  assumes "l = 0 \<or> l = 1" "0 \<le> d" "d < 365 + l"
  shows "1 \<le> d - month_start l (month_of_day l d) + 1 \<and> d - month_start l (month_of_day l d) + 1 \<le> 31"
  using assms unfolding month_of_day_def month_start_def by auto

lemma DayWithinYear_range:
  "0 \<le> DayWithinYear t \<and> DayWithinYear t < 365 + InLeapYear t"
  using YearFromDay_bounds[of "Day t"] DaysInYear_leap_flag[of "YearFromTime t"]
  by (simp add: DayWithinYear_def InLeapYear_def YearFromTime_def)

lemma MonthFromTime_range: "0 \<le> MonthFromTime t \<and> MonthFromTime t \<le> 11"
  unfolding MonthFromTime_def by (rule month_of_day_range)

lemma DateFromTime_range: "1 \<le> DateFromTime t \<and> DateFromTime t \<le> 31"
  unfolding DateFromTime_def MonthFromTime_def InLeapYear_def
  using date_in_month[OF leap_flag_range[of "YearFromTime t"], of "DayWithinYear t"]
    DayWithinYear_range[of t]
  by (simp add: InLeapYear_def)

lemma MakeDay_roundtrip:
  "MakeDay (YearFromTime t) (MonthFromTime t) (DateFromTime t) = Day t"
proof -
  have m: "MonthFromTime t div 12 = 0" "MonthFromTime t mod 12 = MonthFromTime t"
    using MonthFromTime_range[of t] by simp_all
  show ?thesis
    unfolding MakeDay_def m
    by (simp add: DateFromTime_def DayWithinYear_def InLeapYear_def)
qed

lemma MakeDay_twentieth_century:
  assumes "0 \<le> y" "y \<le> 99" "0 \<le> m" "m \<le> 11" "1 \<le> dt" "dt \<le> 31"
  shows "- 25567 \<le> MakeDay (1900 + y) m dt \<and> MakeDay (1900 + y) m dt \<le> 10956"
proof -
  have m: "m div 12 = 0" "m mod 12 = m" using assms by simp_all
  have lo: "DayFromYear 1900 \<le> DayFromYear (1900 + y)" using assms by (intro DayFromYear_mono) simp
  have hi: "DayFromYear (1900 + y + 1) \<le> DayFromYear 2000" using assms by (intro DayFromYear_mono) simp
  have c1: "DayFromYear 1900 = - 25567" by (simp add: DayFromYear_def)
  have c2: "DayFromYear 2000 = 10957" by (simp add: DayFromYear_def)
  have ms: "0 \<le> month_start (leap_flag (1900 + y)) m"
      "month_start (leap_flag (1900 + y)) m \<le> 334 + leap_flag (1900 + y)"
    using month_start_range[OF leap_flag_range[of "1900 + y"], of m] by simp_all
  have "MakeDay (1900 + y) m dt = DayFromYear (1900 + y) + month_start (leap_flag (1900 + y)) m + dt - 1"
    unfolding MakeDay_def m by simp
  with lo hi c1 c2 ms assms(5,6) DayFromYear_Suc[of "1900 + y"] DaysInYear_leap_flag[of "1900 + y"]
  show ?thesis by linarith
qed


lemma getFullYear_Some: "getFullYear z (Some t) = Some (YearFromTime (LocalTime z t))"
  by (simp add: getFullYear_def)

lemma getMonth_Some: "getMonth z (Some t) = Some (MonthFromTime (LocalTime z t))"
  by (simp add: getMonth_def)

lemma getDate_Some: "getDate z (Some t) = Some (DateFromTime (LocalTime z t))"
  by (simp add: getDate_def)

lemma Date_ymd_Some:
  "Date_ymd z (Some y) (Some m) (Some dt) = TimeClip (UTC z (MakeDate (MakeDay (full_year y) m dt) 0))"
  by (simp add: Date_ymd_def)

lemma normalized_None: "normalized z None = None"
  by (simp add: normalized_def getFullYear_def Date_ymd_def)

lemma normalized_Some:
  "normalized z (Some t) =
     TimeClip (UTC z (MakeDate (MakeDay (full_year (YearFromTime (LocalTime z t)))
        (MonthFromTime (LocalTime z t)) (DateFromTime (LocalTime z t))) 0))"
  by (simp only: normalized_def getFullYear_Some getMonth_Some getDate_Some Date_ymd_Some)

lemma normalized_plain_year:
  assumes "\<not> (0 \<le> YearFromTime (LocalTime z t) \<and> YearFromTime (LocalTime z t) \<le> 99)"
  shows "normalized z (Some t) = TimeClip (local_midnight z t)"
proof -
  have "full_year (YearFromTime (LocalTime z t)) = YearFromTime (LocalTime z t)"
    using assms by (simp add: full_year_def)
  then show ?thesis
    by (simp only: normalized_Some MakeDay_roundtrip local_midnight_def local_day_def)
qed

lemma local_midnight_eq:
  "local_midnight z t = local_day z t * msPerDay - z (local_day z t * msPerDay) False"
  by (simp add: local_midnight_def UTC_def MakeDate_def)

lemma zone_regular_offset: "zone_regular z \<Longrightarrow> abs (z t b) < msPerDay"
  by (simp add: zone_regular_def)

lemma zone_regular_next:
  "zone_regular z \<Longrightarrow> z ((a + 1) * msPerDay) False - z (a * msPerDay) False < msPerDay"
  by (simp add: zone_regular_def)

lemma local_day_le: "local_day z t * msPerDay \<le> t + z t True"
  by (simp add: local_day_def Day_def LocalTime_def msPerDay_def)

lemma midnight_less:
  assumes "zone_regular z" "a < b"
  shows "a * msPerDay - z (a * msPerDay) False < b * msPerDay - z (b * msPerDay) False"
proof (cases "b = a + 1")
  case True
  show ?thesis
    using zone_regular_next[OF assms(1), of a] unfolding True msPerDay_def by simp
next
  case False
  then have "a + 2 \<le> b" using assms(2) by simp
  then show ?thesis
    using zone_regular_offset[OF assms(1), of "a * msPerDay" False]
      zone_regular_offset[OF assms(1), of "b * msPerDay" False]
    unfolding msPerDay_def by simp
qed

lemma midnight_mono:
  assumes "zone_regular z"
  shows "a * msPerDay - z (a * msPerDay) False < b * msPerDay - z (b * msPerDay) False \<longleftrightarrow> a < b"
proof (cases a b rule: linorder_cases)
  case less
  then show ?thesis using midnight_less[OF assms less] by simp
next
  case equal
  then show ?thesis by simp
next
  case greater
  then show ?thesis using midnight_less[OF assms greater] by simp
qed

lemma local_midnight_mono:
  assumes "zone_regular z"
  shows "local_midnight z s < local_midnight z t \<longleftrightarrow> local_day z s < local_day z t"
  unfolding local_midnight_eq by (rule midnight_mono[OF assms])

lemma local_midnight_upper:
  assumes "zone_regular z"
  shows "local_midnight z t < t + 2 * msPerDay"
  using local_day_le[of z t] zone_regular_offset[OF assms, of t True]
    zone_regular_offset[OF assms, of "local_day z t * msPerDay" False]
  unfolding local_midnight_eq by linarith

lemma local_day_year_bounds:
  "DayFromYear (YearFromTime (LocalTime z t)) \<le> local_day z t
   \<and> local_day z t < DayFromYear (YearFromTime (LocalTime z t) + 1)"
  using YearFromDay_bounds[of "Day (LocalTime z t)"] DayFromYear_Suc[of "YearFromTime (LocalTime z t)"]
  by (simp add: local_day_def YearFromTime_def)

lemma normalized_clock:
  assumes "n + 2 * msPerDay \<le> maxTime" "10957 \<le> local_day z n" "zone_regular z"
  shows "normalized z (Some n) = Some (local_midnight z n)"
proof -
  have "DayFromYear 2000 \<le> Day (LocalTime z n)"
    using assms(2) by (simp add: DayFromYear_def local_day_def)
  then have "2000 \<le> YearFromTime (LocalTime z n)"
    unfolding YearFromTime_def by (rule YearFromDay_ge)
  then have "normalized z (Some n) = TimeClip (local_midnight z n)"
    by (intro normalized_plain_year) simp
  moreover have "local_midnight z n \<le> maxTime"
    using local_midnight_upper[OF assms(3), of n] assms(1) by simp
  moreover have "- maxTime \<le> local_midnight z n"
    using assms(2) zone_regular_offset[OF assms(3), of "local_day z n * msPerDay" False]
    unfolding local_midnight_eq msPerDay_def maxTime_def by simp
  ultimately show ?thesis by (simp add: TimeClip_def)
qed

lemma normalized_request:
  assumes "zone_regular z"
  shows "(\<not> (0 \<le> YearFromTime (LocalTime z t) \<and> YearFromTime (LocalTime z t) \<le> 99)
            \<and> normalized z (Some t) = TimeClip (local_midnight z t))
       \<or> ((0 \<le> YearFromTime (LocalTime z t) \<and> YearFromTime (LocalTime z t) \<le> 99)
            \<and> (\<exists>k. normalized z (Some t) = Some (k * msPerDay - z (k * msPerDay) False)
                    \<and> k \<le> 10956)
            \<and> - 719528 \<le> local_day z t \<and> local_day z t < - 683003)"
proof (cases "0 \<le> YearFromTime (LocalTime z t) \<and> YearFromTime (LocalTime z t) \<le> 99")
  case False
  with normalized_plain_year[OF False] show ?thesis by simp
next
  case True
  define Y where "Y = YearFromTime (LocalTime z t)"
  define k where "k = MakeDay (1900 + Y) (MonthFromTime (LocalTime z t)) (DateFromTime (LocalTime z t))"
  have Y: "0 \<le> Y" "Y \<le> 99" using True by (simp_all add: Y_def)
  have kb: "- 25567 \<le> k" "k \<le> 10956"
    using MakeDay_twentieth_century[OF Y, of "MonthFromTime (LocalTime z t)" "DateFromTime (LocalTime z t)"]
      MonthFromTime_range[of "LocalTime z t"] DateFromTime_range[of "LocalTime z t"]
    by (simp_all add: k_def)
  have "normalized z (Some t) = TimeClip (k * msPerDay - z (k * msPerDay) False)"
    using True by (simp add: normalized_Some full_year_def k_def Y_def UTC_def MakeDate_def)
  moreover have "abs (k * msPerDay - z (k * msPerDay) False) \<le> maxTime"
    using kb zone_regular_offset[OF assms, of "k * msPerDay" False]
    unfolding msPerDay_def maxTime_def by simp
  ultimately have n: "normalized z (Some t) = Some (k * msPerDay - z (k * msPerDay) False)"
    by (simp add: TimeClip_def)
  have c0: "DayFromYear 0 = - 719528" by (simp add: DayFromYear_def)
  have c100: "DayFromYear 100 = - 683003" by (simp add: DayFromYear_def)
  have "DayFromYear 0 \<le> DayFromYear Y" using Y by (intro DayFromYear_mono) simp
  moreover have "DayFromYear (Y + 1) \<le> DayFromYear 100" using Y by (intro DayFromYear_mono) simp
  ultimately have "- 719528 \<le> local_day z t" "local_day z t < - 683003"
    using local_day_year_bounds[of z t] c0 c100 by (simp_all add: Y_def)
  with True n kb show ?thesis by auto
qed

lemma past_date_decided:
  assumes "n + 2 * msPerDay \<le> maxTime" "10957 \<le> local_day z n" "zone_regular z"
  shows "date_lt (normalized z (Some t)) (normalized z (Some n))
           \<longleftrightarrow> - maxTime \<le> local_midnight z t \<and> local_day z t < local_day z n"
proof -
  have clock: "normalized z (Some n) = Some (local_midnight z n)"
    by (rule normalized_clock[OF assms])
  have top: "local_midnight z n \<le> maxTime"
    using local_midnight_upper[OF assms(3), of n] assms(1) by simp
  from normalized_request[OF assms(3), of t] show ?thesis
  proof (elim disjE conjE exE)
    assume "normalized z (Some t) = TimeClip (local_midnight z t)"
    then show ?thesis
      unfolding clock using top local_midnight_mono[OF assms(3), of t n]
      by (auto simp add: date_lt_def TimeClip_def)
  next
    fix k
    assume k: "normalized z (Some t) = Some (k * msPerDay - z (k * msPerDay) False)" "k \<le> 10956"
      and d: "- 719528 \<le> local_day z t" "local_day z t < - 683003"
    have "k < local_day z n" using k(2) assms(2) by simp
    then have "date_lt (normalized z (Some t)) (normalized z (Some n))"
      unfolding k clock local_midnight_eq[of z n]
      by (simp add: date_lt_def midnight_mono[OF assms(3)])
    moreover have "local_day z t < local_day z n" using d assms(2) by simp
    moreover have "- maxTime \<le> local_midnight z t"
      using d zone_regular_offset[OF assms(3), of "local_day z t * msPerDay" False]
      unfolding local_midnight_eq msPerDay_def maxTime_def by simp
    ultimately show ?thesis by simp
  qed
qed

lemma past_date_compared:
  assumes "now en + 2 * msPerDay \<le> maxTime" "10957 \<le> local_day (localTZA en) (now en)"
      and "zone_regular (localTZA en)"
  shows "date_lt (normalized (localTZA en) (newDate en ds)) (normalized (localTZA en) (Some (now en)))
           \<longleftrightarrow> past_date en ds"
proof (cases "newDate en ds")
  case None
  then show ?thesis by (simp add: past_date_def normalized_None date_lt_def)
next
  case (Some t)
  then show ?thesis using past_date_decided[OF assms, of t] by (simp add: past_date_def)
qed

section \<open>Properties of validatePeriods\<close>

lemma in_values_array: "in_values en (Some (JArr xs)) = Inr xs"
  by (simp add: in_values_def)

lemma validatePeriods_answered:
  "in_values en p = Inr xs \<Longrightarrow>
   validatePeriods en None d y p ds =
     (Inr (if date_lt (normalized (localTZA en) (newDate en ds)) (normalized (localTZA en) (Some (now en)))
           then \<lparr>valid = False, errorMsg = Some ''Cannot apply for OD on past dates.''\<rparr>
           else \<lparr>valid = True, errorMsg = None\<rparr>),
      logged (OpSelect YearPeriodTimings) d)"
  by (simp add: validatePeriods_def select_rows_def normalized_def Let_def)

lemma validatePeriods_thrown:
  "in_values en p = Inr xs \<Longrightarrow>
   validatePeriods en (Some e) d y p ds = (Inl e, logged (OpSelect YearPeriodTimings) d)"
  by (simp add: validatePeriods_def select_rows_def)

lemma validatePeriods_not_built:
  "in_values en p = Inl e \<Longrightarrow> validatePeriods en f d y p ds = (Inl e, d)"
  by (simp add: validatePeriods_def)

lemma validatePeriods_passed:
  assumes "fst (validatePeriods en f d y p ds) = Inr v"
  shows "f = None \<and> (\<exists>xs. in_values en p = Inr xs)"
proof (cases "in_values en p")
  case (Inl e)
  with assms show ?thesis by (simp add: validatePeriods_not_built)
next
  case (Inr xs)
  with assms show ?thesis by (cases f) (simp_all add: validatePeriods_thrown)
qed

lemma post_od_request_steps:
  assumes "body req ''user_id'' = Some (JStr (sub (user req)))" "timings_fault sr = None"
      and "in_values en (body req ''periods'') = Inr xs"
  shows "post_od_request en sr d req =
     (if date_lt (normalized (localTZA en) (newDate en (body req ''date''))) (normalized (localTZA en) (Some (now en)))
      then (reply 400 (JsonError ''Cannot apply for OD on past dates.''),
            logged (OpSelect YearPeriodTimings) d)
      else (case main_fault sr of
              Some e \<Rightarrow>
                (caught e, logged (OpInsert OdRequests) (logged (OpSelect YearPeriodTimings) d))
            | None \<Rightarrow>
                (reply 201 (JsonRow (column_defaults OdRequests (generated_columns sr) ++ body req)),
                 logged (OpInsert OdRequests)
                   (set_rows OdRequests
                      (tables d OdRequests @ [column_defaults OdRequests (generated_columns sr) ++ body req])
                      (logged (OpSelect YearPeriodTimings) d)))))"
  using assms(1,2)
  by (simp add: post_od_request_def validatePeriods_answered[OF assms(3)] insert_row_def logged_def
      set_rows_def Let_def split: option.splits)

lemma post_od_request_not_built:
  assumes "body req ''user_id'' = Some (JStr (sub (user req)))"
      and "in_values en (body req ''periods'') = Inl e"
  shows "post_od_request en sr d req = (caught e, d)"
  using assms(1) by (simp add: post_od_request_def validatePeriods_not_built[OF assms(2)])

section \<open>Evaluation on the example data\<close>

lemmas example_defs = example_db_def example_tables_def hod_row_def student_row_def od_cse_def
  od_ece_def example_env_def example_parse_def no_faults_def od_body_def create_request_def
  timeout_error_def outage_def lookup_outage_def type_error_def
  review_request_def admin_claims_def student_claims_def admin_request_def student_request_def

lemmas calendar_defs = TimeClip_def UTC_def LocalTime_def MakeDate_def MakeDay_def YearFromTime_def
  YearFromDay_def Day_def MonthFromTime_def DateFromTime_def DayWithinYear_def InLeapYear_def
  DaysInYear_def DayFromYear_def month_start_def msPerDay_def maxTime_def year_in_century_def
  century_in_era_def year_in_era_def leap_flag_def month_of_day_def full_year_def

lemma fixed_zone_regular: "abs offset < msPerDay \<Longrightarrow> zone_regular (fixed_zone offset)"
  by (simp add: zone_regular_def fixed_zone_def msPerDay_def)

lemma new_york_zone_regular: "zone_regular new_york_zone"
  by (simp add: zone_regular_def new_york_zone_def msPerDay_def)

lemma example_clock_normalized:
  "normalized (fixed_zone 19800000) (Some 1793685600000) = Some 1793644200000"
  by (simp add: normalized_Some calendar_defs fixed_zone_def)

lemma example_future_normalized:
  "normalized (fixed_zone 19800000) (Some 4070908800000) = Some 4070889000000"
  by (simp add: normalized_Some calendar_defs fixed_zone_def)

lemma example_earliest_normalized:
  "normalized (fixed_zone 19800000) (Some (- 8640000000000000)) = None"
  by (simp add: normalized_Some calendar_defs fixed_zone_def)

lemma example_env_fields:
  "localTZA example_env = fixed_zone 19800000" "now example_env = 1793685600000"
  "newDate example_env (Some (JStr ''2099-01-01'')) = Some 4070908800000"
  "newDate example_env (Some (JStr ''2020-01-01'')) = Some 1577836800000"
  "newDate example_env (Some (JStr ''-271821-04-20T00:00:00.000Z'')) = Some (- 8640000000000000)"
  "newDate example_env (Some (JStr ''next friday'')) = None"
  by (simp_all add: example_env_def example_parse_def)

lemma example_local_days:
  "local_day (fixed_zone 19800000) 1793685600000 = 20760"
  "local_day (fixed_zone 19800000) 1577836800000 = 18262"
  "local_day (fixed_zone 19800000) 4070908800000 = 47117"
  "local_day (fixed_zone 19800000) (- 8640000000000000) = - 100000000"
  "local_midnight (fixed_zone 19800000) (- 8640000000000000) = - 8640000019800000"
  "local_midnight (fixed_zone 19800000) 1577836800000 = 1577817000000"
  by (simp_all add: local_midnight_eq local_day_def Day_def LocalTime_def msPerDay_def fixed_zone_def)

lemma new_york_env_fields:
  "localTZA new_york_env = new_york_zone" "now new_york_env = 1793545200000"
  "newDate new_york_env (Some (JStr ''2026-11-01T04:30:00Z'')) = Some 1793507400000"
  "newDate new_york_env (Some (JStr ''2026-11-01T03:30:00Z'')) = Some 1793503800000"
  by (simp_all add: new_york_env_def new_york_parse_def)

lemma new_york_local_days:
  "local_day new_york_zone 1793545200000 = 20758"
  "local_day new_york_zone 1793507400000 = 20758"
  "local_day new_york_zone 1793503800000 = 20757"
  "local_midnight new_york_zone 1793503800000 = 1793419200000"
  by (simp_all add: local_midnight_eq local_day_def Day_def LocalTime_def msPerDay_def
      new_york_zone_def)

section \<open>The date validator on request dates\<close>

text \<open>
  The claim C4 as stated fails at the lower end of the range of dates: on a host east of
  UTC, for the earliest time value (which the string
  \<open>-271821-04-20T00:00:00.000Z\<close> denotes), the local midnight lies below the range, the
  rebuilt date is invalid, and the date, although earlier than today, is accepted.
\<close>

theorem validatePeriods_earliest_date_accepted:
  "local_day (localTZA example_env) (- 8640000000000000) < local_day (localTZA example_env) (now example_env)
   \<and> newDate example_env (Some (JStr ''-271821-04-20T00:00:00.000Z'')) = Some (- 8640000000000000)
   \<and> fst (validatePeriods example_env None example_db (Some (JNum 2)) (Some (JArr [JNum 1, JNum 2]))
           (Some (JStr ''-271821-04-20T00:00:00.000Z''))) = Inr \<lparr>valid = True, errorMsg = None\<rparr>
   \<and> status_code (fst (post_od_request example_env no_faults example_db
           (create_request\<lparr>body := od_body(''date'' \<mapsto> JStr ''-271821-04-20T00:00:00.000Z'')\<rparr>)))
       = 201"
proof -
  let ?req = "create_request\<lparr>body := od_body(''date'' \<mapsto> JStr ''-271821-04-20T00:00:00.000Z'')\<rparr>"
  have u: "body ?req ''user_id'' = Some (JStr (sub (user ?req)))"
      "timings_fault no_faults = None" "main_fault no_faults = None"
      "body ?req ''date'' = Some (JStr ''-271821-04-20T00:00:00.000Z'')"
    by (simp_all add: create_request_def od_body_def student_claims_def no_faults_def)
  have l: "in_values example_env (body ?req ''periods'') = Inr [JNum 1, JNum 2]"
    by (simp add: create_request_def od_body_def in_values_def)
  have v: "fst (validatePeriods example_env None example_db (Some (JNum 2)) (Some (JArr [JNum 1, JNum 2]))
           (Some (JStr ''-271821-04-20T00:00:00.000Z''))) = Inr \<lparr>valid = True, errorMsg = None\<rparr>"
    by (simp add: validatePeriods_answered[OF in_values_array] example_env_fields
        example_clock_normalized example_earliest_normalized date_lt_def)
  have h: "status_code (fst (post_od_request example_env no_faults example_db ?req)) = 201"
    unfolding post_od_request_steps[OF u(1,2) l] u
    by (simp add: example_env_fields example_clock_normalized example_earliest_normalized date_lt_def
        reply_def)
  from v h show ?thesis
    by (simp add: example_env_fields example_local_days)
qed

text \<open>
  C4 (amended). On a host with a clock on or after 1 January 2000 and zone rules whose
  offsets are less than a day and skip no calendar day, given a list of periods and the
  timings fetch answered, the validator rejects exactly the date strings that name a past
  date: those that parse to a date whose local day is earlier than today's local day and
  whose local midnight does not lie below the range of dates. Every other date string is
  accepted. The verdict is the same for every year, every list of periods and every
  content of the timings table, and a rejected request is answered 400 by the handler.
\<close>

theorem od_request_past_dates:
  assumes "now en + 2 * msPerDay \<le> maxTime" "10957 \<le> local_day (localTZA en) (now en)"
      and "zone_regular (localTZA en)"
      and "in_values en (body req ''periods'') = Inr ps" "in_values en periods' = Inr ps'"
      and "body req ''user_id'' = Some (JStr (sub (user req)))"
      and "timings_fault sr = None"
  shows "fst (validatePeriods en (timings_fault sr) d (body req ''year'') (body req ''periods'')
              (body req ''date'')) =
           Inr (if past_date en (body req ''date'')
                then \<lparr>valid = False, errorMsg = Some ''Cannot apply for OD on past dates.''\<rparr>
                else \<lparr>valid = True, errorMsg = None\<rparr>)
       \<and> fst (validatePeriods en (timings_fault sr) d' year' periods' (body req ''date'')) =
           fst (validatePeriods en (timings_fault sr) d (body req ''year'') (body req ''periods'')
              (body req ''date''))
       \<and> fst (post_od_request en sr d req) =
           (if past_date en (body req ''date'')
            then reply 400 (JsonError ''Cannot apply for OD on past dates.'')
            else (case main_fault sr of
                    Some e \<Rightarrow> caught e
                  | None \<Rightarrow>
                      reply 201 (JsonRow (column_defaults OdRequests (generated_columns sr) ++ body req))))"
  unfolding assms(7) post_od_request_steps[OF assms(6,7,4)] validatePeriods_answered[OF assms(4)]
    validatePeriods_answered[OF assms(5)] past_date_compared[OF assms(1,2,3)]
  by (simp split: option.splits)

theorem od_request_past_dates_witness:
  "fst (validatePeriods example_env None example_db (Some (JNum 2)) (Some (JArr [JNum 1, JNum 2]))
         (Some (JStr ''2020-01-01''))) =
     Inr \<lparr>valid = False, errorMsg = Some ''Cannot apply for OD on past dates.''\<rparr>
   \<and> fst (post_od_request example_env no_faults example_db
         (create_request\<lparr>body := od_body(''date'' \<mapsto> JStr ''2020-01-01'')\<rparr>)) =
     reply 400 (JsonError ''Cannot apply for OD on past dates.'')
   \<and> fst (validatePeriods example_env None example_db (Some (JNum 2)) (Some (JArr [JNum 1, JNum 2]))
         (Some (JStr ''2099-01-01''))) = Inr \<lparr>valid = True, errorMsg = None\<rparr>
   \<and> status_code (fst (post_od_request example_env no_faults example_db create_request)) = 201
   \<and> fst (post_od_request new_york_env no_faults example_db
         (create_request\<lparr>body := od_body(''date'' \<mapsto> JStr ''2026-11-01T03:30:00Z'')\<rparr>)) =
     reply 400 (JsonError ''Cannot apply for OD on past dates.'')
   \<and> fst (validatePeriods new_york_env None example_db (Some (JNum 2)) (Some (JArr [JNum 1, JNum 2]))
         (Some (JStr ''2026-11-01T04:30:00Z''))) = Inr \<lparr>valid = True, errorMsg = None\<rparr>
   \<and> status_code (fst (post_od_request new_york_env no_faults example_db
         (create_request\<lparr>body := od_body(''date'' \<mapsto> JStr ''2026-11-01T04:30:00Z'')\<rparr>))) = 201"
proof -
  let ?past = "create_request\<lparr>body := od_body(''date'' \<mapsto> JStr ''2020-01-01'')\<rparr>"
  let ?eve = "create_request\<lparr>body := od_body(''date'' \<mapsto> JStr ''2026-11-01T03:30:00Z'')\<rparr>"
  let ?day = "create_request\<lparr>body := od_body(''date'' \<mapsto> JStr ''2026-11-01T04:30:00Z'')\<rparr>"
  have b: "body ?past ''date'' = Some (JStr ''2020-01-01'')" "body ?past ''year'' = Some (JNum 2)"
      "body ?past ''periods'' = Some (JArr [JNum 1, JNum 2])"
      "body ?past ''user_id'' = Some (JStr (sub (user ?past)))"
      "body create_request ''date'' = Some (JStr ''2099-01-01'')"
      "body create_request ''year'' = Some (JNum 2)"
      "body create_request ''periods'' = Some (JArr [JNum 1, JNum 2])"
      "body create_request ''user_id'' = Some (JStr (sub (user create_request)))"
      "body ?eve ''date'' = Some (JStr ''2026-11-01T03:30:00Z'')" "body ?eve ''year'' = Some (JNum 2)"
      "body ?eve ''periods'' = Some (JArr [JNum 1, JNum 2])"
      "body ?eve ''user_id'' = Some (JStr (sub (user ?eve)))"
      "body ?day ''date'' = Some (JStr ''2026-11-01T04:30:00Z'')" "body ?day ''year'' = Some (JNum 2)"
      "body ?day ''periods'' = Some (JArr [JNum 1, JNum 2])"
      "body ?day ''user_id'' = Some (JStr (sub (user ?day)))"
    by (simp_all add: create_request_def od_body_def student_claims_def)
  have f: "timings_fault no_faults = None" "main_fault no_faults = None"
    by (simp_all add: no_faults_def)
  have r: "now example_env + 2 * msPerDay \<le> maxTime"
      "10957 \<le> local_day (localTZA example_env) (now example_env)"
      "zone_regular (localTZA example_env)"
    by (simp_all add: example_env_fields example_local_days maxTime_def msPerDay_def
        fixed_zone_regular)
  have n: "now new_york_env + 2 * msPerDay \<le> maxTime"
      "10957 \<le> local_day (localTZA new_york_env) (now new_york_env)"
      "zone_regular (localTZA new_york_env)"
    by (simp_all add: new_york_env_fields new_york_local_days maxTime_def msPerDay_def
        new_york_zone_regular)
  have l: "in_values example_env (body ?past ''periods'') = Inr [JNum 1, JNum 2]"
      "in_values example_env (body create_request ''periods'') = Inr [JNum 1, JNum 2]"
      "in_values new_york_env (body ?eve ''periods'') = Inr [JNum 1, JNum 2]"
      "in_values new_york_env (body ?day ''periods'') = Inr [JNum 1, JNum 2]"
    unfolding b by (rule in_values_array)+
  have p: "past_date example_env (Some (JStr ''2020-01-01''))"
      "\<not> past_date example_env (Some (JStr ''2099-01-01''))"
      "past_date new_york_env (Some (JStr ''2026-11-01T03:30:00Z''))"
      "\<not> past_date new_york_env (Some (JStr ''2026-11-01T04:30:00Z''))"
    by (simp_all add: past_date_def example_env_fields example_local_days new_york_env_fields
        new_york_local_days maxTime_def)
  show ?thesis
    using od_request_past_dates[OF r l(1) in_values_array b(4) f(1), of example_db example_db
        "Some (JNum 2)"]
      od_request_past_dates[OF r l(2) in_values_array b(8) f(1), of example_db example_db
        "Some (JNum 2)"]
      od_request_past_dates[OF n l(3) in_values_array b(12) f(1), of example_db example_db
        "Some (JNum 2)"]
      od_request_past_dates[OF n l(4) in_values_array b(16) f(1), of example_db example_db
        "Some (JNum 2)"]
    unfolding b f
    by (simp add: p reply_def)
qed

section \<open>The date validator on invalid dates\<close>

text \<open>
  C9. When the date string parses to an invalid date, the validator (given a list of
  periods, its timings fetch answered) returns \<open>{ valid: true }\<close>: the rebuilt date is
  invalid and the comparison with it is false. The handler then goes on to the insert.
\<close>

theorem validatePeriods_invalid_date:
  assumes "newDate en ds = None" "in_values en p = Inr ps"
  shows "validatePeriods en None d y p ds =
           (Inr \<lparr>valid = True, errorMsg = None\<rparr>, logged (OpSelect YearPeriodTimings) d)
       \<and> (body req ''date'' = ds \<and> body req ''periods'' = p
            \<and> body req ''user_id'' = Some (JStr (sub (user req)))
            \<and> timings_fault sr = None \<longrightarrow>
            fst (post_od_request en sr d req) =
              (case main_fault sr of
                 Some e \<Rightarrow> caught e
               | None \<Rightarrow>
                   reply 201 (JsonRow (column_defaults OdRequests (generated_columns sr) ++ body req))))"
proof -
  have v: "validatePeriods en None d y p ds =
           (Inr \<lparr>valid = True, errorMsg = None\<rparr>, logged (OpSelect YearPeriodTimings) d)"
    using assms(1) by (simp add: validatePeriods_answered[OF assms(2)] normalized_None date_lt_def)
  have h: "fst (post_od_request en sr d req) =
              (case main_fault sr of
                 Some e \<Rightarrow> caught e
               | None \<Rightarrow>
                   reply 201 (JsonRow (column_defaults OdRequests (generated_columns sr) ++ body req)))"
    if "body req ''date'' = ds" "body req ''periods'' = p"
      "body req ''user_id'' = Some (JStr (sub (user req)))" "timings_fault sr = None"
  proof -
    have l: "in_values en (body req ''periods'') = Inr ps"
      using assms(2) that(2) by simp
    show ?thesis
      unfolding post_od_request_steps[OF that(3,4) l] that(1) assms(1)
      by (simp add: normalized_None date_lt_def split: option.splits)
  qed
  show ?thesis
  proof (intro conjI impI)
    show "validatePeriods en None d y p ds =
           (Inr \<lparr>valid = True, errorMsg = None\<rparr>, logged (OpSelect YearPeriodTimings) d)"
      by (rule v)
  next
    assume "body req ''date'' = ds \<and> body req ''periods'' = p
            \<and> body req ''user_id'' = Some (JStr (sub (user req)))
            \<and> timings_fault sr = None"
    then show "fst (post_od_request en sr d req) =
              (case main_fault sr of
                 Some e \<Rightarrow> caught e
               | None \<Rightarrow>
                   reply 201 (JsonRow (column_defaults OdRequests (generated_columns sr) ++ body req)))"
      using h by simp
  qed
qed

theorem validatePeriods_invalid_date_witness:
  "newDate example_env (Some (JStr ''next friday'')) = None
   \<and> validatePeriods example_env None example_db (Some (JNum 2)) (Some (JArr [JNum 1, JNum 2]))
        (Some (JStr ''next friday'')) =
       (Inr \<lparr>valid = True, errorMsg = None\<rparr>, logged (OpSelect YearPeriodTimings) example_db)
   \<and> fst (post_od_request example_env no_faults example_db
          (create_request\<lparr>body := od_body(''date'' \<mapsto> JStr ''next friday'')\<rparr>)) =
       reply 201 (JsonRow (column_defaults OdRequests (generated_columns no_faults)
                    ++ od_body(''date'' \<mapsto> JStr ''next friday'')))"
proof -
  let ?req = "create_request\<lparr>body := od_body(''date'' \<mapsto> JStr ''next friday'')\<rparr>"
  have b: "body ?req ''date'' = Some (JStr ''next friday'')"
      "body ?req ''periods'' = Some (JArr [JNum 1, JNum 2])"
      "body ?req ''user_id'' = Some (JStr (sub (user ?req)))"
      "timings_fault no_faults = None" "main_fault no_faults = None"
      "body ?req = od_body(''date'' \<mapsto> JStr ''next friday'')"
    by (simp_all add: create_request_def od_body_def student_claims_def no_faults_def)
  show ?thesis
    using validatePeriods_invalid_date[OF example_env_fields(6) in_values_array, of example_db
        "Some (JNum 2)" "[JNum 1, JNum 2]" ?req no_faults] example_env_fields(6) b
    by simp
qed

lemmas store_defs = select_rows_def whitelist_lookup_def insert_row_def upsert_row_def
  update_single_def delete_rows_def logged_def set_rows_def project_def column_defaults_def
  map_add_def same_key_def is_null_def

section \<open>Access to profiles\<close>

text \<open>
  C8. \<open>GET /api/user/:id\<close> answers 403 unless the caller is the target or is in the
  whitelist, so a row only comes back to such a caller; \<open>POST /api/user\<close> answers 403
  and leaves the store untouched unless the body's \<open>id\<close> is the caller's, whitelist or
  not, and otherwise goes on to the upsert.
\<close>

theorem profile_access:
  "(sub (user req) \<noteq> param req \<and> \<not> whitelisted d (email (user req)) \<longrightarrow>
      get_user en sr d req =
        (reply 403 (JsonError ''Unauthorized''), logged (OpSelect AdminWhitelist) d))
   \<and> (\<forall>row. content (fst (get_user en sr d req)) = JsonRow row \<longrightarrow>
         sub (user req) = param req \<or> whitelisted d (email (user req)))
   \<and> (body req ''id'' \<noteq> Some (JStr (sub (user req))) \<longrightarrow>
         post_user en sr d req = (reply 403 (JsonError ''Cannot update other users''), d))
   \<and> (body req ''id'' = Some (JStr (sub (user req))) \<longrightarrow>
         snd (post_user en sr d req) =
           snd (upsert_row (main_fault sr) (generated_columns sr) Users [''id''] (body req) d))"
  using get_user_forbidden[of req d en sr] get_user_row_only[of en sr d req]
    post_user_forbidden[of req en sr d] post_user_proceeds[of req en sr d]
  by blast

theorem profile_access_witness:
  "get_user example_env no_faults example_db (student_request\<lparr>param := ''u2''\<rparr>) =
     (reply 403 (JsonError ''Unauthorized''), logged (OpSelect AdminWhitelist) example_db)
   \<and> content (fst (get_user example_env no_faults example_db (student_request\<lparr>param := ''u1''\<rparr>)))
       = JsonRow student_row
   \<and> content (fst (get_user example_env no_faults example_db (admin_request\<lparr>param := ''u1''\<rparr>)))
       = JsonRow student_row
   \<and> post_user example_env no_faults example_db
       (admin_request\<lparr>body := [''id'' \<mapsto> JStr ''u1'', ''name'' \<mapsto> JStr ''Changed'']\<rparr>) =
     (reply 403 (JsonError ''Cannot update other users''), example_db)
   \<and> map (\<lambda>r. r ''name'') (tables (snd (post_user example_env no_faults example_db
       (student_request\<lparr>body := [''id'' \<mapsto> JStr ''u1'', ''name'' \<mapsto> JStr ''Changed'']\<rparr>))) Users)
       = [Some (JStr ''Changed'')]"
proof -
  have a: "sub (user (student_request\<lparr>param := ''u2''\<rparr>)) \<noteq> param (student_request\<lparr>param := ''u2''\<rparr>)"
      "\<not> whitelisted example_db (email (user (student_request\<lparr>param := ''u2''\<rparr>)))"
    using example_student_not_whitelisted
    by (simp_all add: student_request_def student_claims_def)
  have b: "body (admin_request\<lparr>body := [''id'' \<mapsto> JStr ''u1'', ''name'' \<mapsto> JStr ''Changed'']\<rparr>) ''id''
        \<noteq> Some (JStr (sub (user (admin_request\<lparr>body := [''id'' \<mapsto> JStr ''u1'', ''name'' \<mapsto> JStr ''Changed'']\<rparr>))))"
    by (simp add: admin_request_def admin_claims_def)
  have own: "content (fst (get_user example_env no_faults example_db (student_request\<lparr>param := ''u1''\<rparr>)))
       = JsonRow student_row"
    by (simp add: get_user_def store_defs example_defs split_beta reply_def)
  have adm: "content (fst (get_user example_env no_faults example_db (admin_request\<lparr>param := ''u1''\<rparr>)))
       = JsonRow student_row"
    by (simp add: get_user_def store_defs example_defs split_beta reply_def)
  have ups: "map (\<lambda>r. r ''name'') (tables (snd (post_user example_env no_faults example_db
       (student_request\<lparr>body := [''id'' \<mapsto> JStr ''u1'', ''name'' \<mapsto> JStr ''Changed'']\<rparr>))) Users)
       = [Some (JStr ''Changed'')]"
    by (simp add: post_user_def store_defs example_defs split_beta)
  show ?thesis
    using profile_access[of "student_request\<lparr>param := ''u2''\<rparr>" example_db example_env no_faults]
      profile_access[of "admin_request\<lparr>body := [''id'' \<mapsto> JStr ''u1'', ''name'' \<mapsto> JStr ''Changed'']\<rparr>"
        example_db example_env no_faults]
      a b own adm ups
    by simp
qed


section \<open>Identity checks of the OD handlers\<close>

lemma authorize_keeps_identity:
  assumes "fst (authorize role f d req) = Inr req'"
  shows "sub (user req') = sub (user req) \<and> body req' = body req \<and> param req' = param req"
  using assms by (auto simp add: authorize_def split_beta split: if_splits sum.splits)

lemma authorize_db: "snd (authorize role f d req) = logged (OpSelect AdminWhitelist) d"
  using whitelist_lookup_db[of f "[''email'', ''department'']" "email (user req)" d]
  by (simp add: authorize_def split_beta Let_def split: sum.splits)

lemma authorize_replies_403:
  "fst (authorize role f d req) = Inl resp \<Longrightarrow> status_code resp = 403"
  by (auto simp add: authorize_def split_beta reply_def split: if_splits sum.splits)

lemma guarded_mismatch:
  assumes "\<And>d' req'. sub (user req') = sub (user req) \<Longrightarrow> body req' = body req \<Longrightarrow>
             h en sr d' req' = (reply 403 msg, d')"
  shows "status_code (fst (guarded role h en sr d req)) = 403
       \<and> snd (guarded role h en sr d req) = logged (OpSelect AdminWhitelist) d"
proof (cases "fst (authorize role (lookup_fault sr) d req)")
  case (Inl resp)
  then show ?thesis
    using authorize_replies_403[OF Inl] authorize_db[of role "lookup_fault sr" d req]
    by (simp add: guarded_def split_beta)
next
  case (Inr req')
  then show ?thesis
    using authorize_keeps_identity[OF Inr] authorize_db[of role "lookup_fault sr" d req]
      assms[of req' "logged (OpSelect AdminWhitelist) d"]
    by (simp add: guarded_def split_beta reply_def)
qed

text \<open>
  The claim C3 as stated fails in what it concludes of the stored rows: the create handler
  inserts the body as it is, so the student of the example, who is no administrator,
  stores a row whose \<open>reviewed_by\<close> is the student's own id and whose status is
  \<open>approved\<close>. The route reads the whitelist, fetches the timings and inserts; no
  review takes place.
\<close>

theorem created_row_names_a_reviewer:
  "fst (authorize ''admin'' None example_db
       (create_request\<lparr>body := od_body(''reviewed_by'' \<mapsto> JStr ''u1'', ''status'' \<mapsto> JStr ''approved'')\<rparr>)) =
     Inl (reply 403 (JsonError ''Admin access required''))
   \<and> status_code (fst (route_od_request example_env no_faults example_db
       (create_request\<lparr>body := od_body(''reviewed_by'' \<mapsto> JStr ''u1'', ''status'' \<mapsto> JStr ''approved'')\<rparr>))) = 201
   \<and> map (\<lambda>r. r ''reviewed_by'') (tables (snd (route_od_request example_env no_faults example_db
       (create_request\<lparr>body := od_body(''reviewed_by'' \<mapsto> JStr ''u1'', ''status'' \<mapsto> JStr ''approved'')\<rparr>))) OdRequests)
      = [None, Some (JStr ''a1''), Some (JStr ''u1'')]
   \<and> oplog (snd (route_od_request example_env no_faults example_db
       (create_request\<lparr>body := od_body(''reviewed_by'' \<mapsto> JStr ''u1'', ''status'' \<mapsto> JStr ''approved'')\<rparr>)))
      = [OpSelect AdminWhitelist, OpSelect YearPeriodTimings, OpInsert OdRequests]"
proof -
  let ?req = "create_request\<lparr>body := od_body(''reviewed_by'' \<mapsto> JStr ''u1'', ''status'' \<mapsto> JStr ''approved'')\<rparr>"
  have u: "body ?req ''user_id'' = Some (JStr (sub (user ?req)))"
      "timings_fault no_faults = None" "main_fault no_faults = None"
      "body ?req ''date'' = Some (JStr ''2099-01-01'')"
    by (simp_all add: create_request_def od_body_def student_claims_def no_faults_def)
  have l: "in_values example_env (body ?req ''periods'') = Inr [JNum 1, JNum 2]"
    by (simp add: create_request_def od_body_def in_values_def)
  have a: "fst (authorize ''admin'' None example_db ?req) =
      Inl (reply 403 (JsonError ''Admin access required''))"
    by (simp add: authorize_def store_defs example_defs split_beta PGRST116_def)
  have p: "authorize ''user'' None example_db ?req =
      (Inr ?req, logged (OpSelect AdminWhitelist) example_db)"
    by (simp add: authorize_def store_defs example_defs split_beta endsWith_def)
  have r: "route_od_request example_env no_faults example_db ?req =
      post_od_request example_env no_faults (logged (OpSelect AdminWhitelist) example_db) ?req"
    by (simp add: route_od_request_def guarded_def p no_faults_def)
  have h: "status_code (fst (route_od_request example_env no_faults example_db ?req)) = 201
      \<and> map (\<lambda>r. r ''reviewed_by'') (tables (snd (route_od_request example_env no_faults example_db ?req))
            OdRequests) = [None, Some (JStr ''a1''), Some (JStr ''u1'')]
      \<and> oplog (snd (route_od_request example_env no_faults example_db ?req))
          = [OpSelect AdminWhitelist, OpSelect YearPeriodTimings, OpInsert OdRequests]"
    unfolding r post_od_request_steps[OF u(1,2) l] u
    by (simp add: example_env_fields example_clock_normalized example_future_normalized date_lt_def
        store_defs example_defs reply_def)
  from a h show ?thesis by simp
qed

text \<open>
  C3 (amended). A create call whose \<open>user_id\<close> is not the caller's is answered 403 by the
  handler before any store call (the store, its log included, is unchanged), and the whole
  route answers 403 having only read the whitelist in \<open>authorize\<close>; the same holds for a
  review whose \<open>reviewedBy\<close> is not the caller's. A row the create handler adds is the
  body over the store's defaults and carries the caller as \<open>user_id\<close>, with whatever
  \<open>reviewed_by\<close> the body names; a row the review handler changes carries the caller as
  \<open>reviewed_by\<close>.
\<close>

theorem identity_checks:
  "(body req ''user_id'' \<noteq> Some (JStr (sub (user req))) \<longrightarrow>
      post_od_request en sr d req = (reply 403 (JsonError ''User ID mismatch''), d)
      \<and> status_code (fst (route_od_request en sr d req)) = 403
      \<and> snd (route_od_request en sr d req) = logged (OpSelect AdminWhitelist) d)
   \<and> (body req ''reviewedBy'' \<noteq> Some (JStr (sub (user req))) \<longrightarrow>
      put_od_review en sr d req = (reply 403 (JsonError ''Reviewer ID mismatch''), d)
      \<and> status_code (fst (route_od_review en sr d req)) = 403
      \<and> snd (route_od_review en sr d req) = logged (OpSelect AdminWhitelist) d)
   \<and> (tables (snd (post_od_request en sr d req)) = tables d
        \<or> (\<exists>row. tables (snd (post_od_request en sr d req)) =
                    (tables d)(OdRequests := tables d OdRequests @ [row])
             \<and> row ''user_id'' = Some (JStr (sub (user req)))
             \<and> row = column_defaults OdRequests (generated_columns sr) ++ body req))
   \<and> length (tables (snd (put_od_review en sr d req)) OdRequests) = length (tables d OdRequests)
   \<and> (\<forall>i < length (tables d OdRequests).
        tables (snd (put_od_review en sr d req)) OdRequests ! i = tables d OdRequests ! i
        \<or> (tables (snd (put_od_review en sr d req)) OdRequests ! i) ''reviewed_by''
            = Some (JStr (sub (user req))))"
proof -
  have create: "body req ''user_id'' \<noteq> Some (JStr (sub (user req))) \<Longrightarrow>
      status_code (fst (route_od_request en sr d req)) = 403
      \<and> snd (route_od_request en sr d req) = logged (OpSelect AdminWhitelist) d"
    unfolding route_od_request_def
    by (rule guarded_mismatch[where msg = "JsonError ''User ID mismatch''"])
       (simp add: post_od_request_mismatch)
  have review: "body req ''reviewedBy'' \<noteq> Some (JStr (sub (user req))) \<Longrightarrow>
      status_code (fst (route_od_review en sr d req)) = 403
      \<and> snd (route_od_review en sr d req) = logged (OpSelect AdminWhitelist) d"
    unfolding route_od_review_def
    by (rule guarded_mismatch[where msg = "JsonError ''Reviewer ID mismatch''"])
       (simp add: put_od_review_mismatch)
  show ?thesis
    using create review post_od_request_mismatch[of req en sr d] put_od_review_mismatch[of req en sr d]
      post_od_request_rows[of en sr d req] put_od_review_rows[of en sr d req]
    by blast
qed


theorem identity_checks_witness:
  "post_od_request example_env no_faults example_db
       (create_request\<lparr>body := od_body(''user_id'' \<mapsto> JStr ''u2'')\<rparr>) =
     (reply 403 (JsonError ''User ID mismatch''), example_db)
   \<and> oplog (snd (route_od_request example_env no_faults example_db
       (create_request\<lparr>body := od_body(''user_id'' \<mapsto> JStr ''u2'')\<rparr>))) = [OpSelect AdminWhitelist]
   \<and> put_od_review example_env no_faults example_db
       ((review_request ''r1'' ''approved'')\<lparr>body := [''status'' \<mapsto> JStr ''approved'', ''reviewedBy'' \<mapsto> JStr ''a2'']\<rparr>) =
     (reply 403 (JsonError ''Reviewer ID mismatch''), example_db)
   \<and> map (\<lambda>r. r ''user_id'') (tables (snd (post_od_request example_env no_faults example_db create_request)) OdRequests)
       = [Some (JStr ''u1''), Some (JStr ''u2''), Some (JStr ''u1'')]
   \<and> map (\<lambda>r. r ''reviewed_by'')
        (tables (snd (put_od_review example_env no_faults example_db (review_request ''r1'' ''approved''))) OdRequests)
       = [Some (JStr ''a1''), Some (JStr ''a1'')]"
proof -
  let ?c = "create_request\<lparr>body := od_body(''user_id'' \<mapsto> JStr ''u2'')\<rparr>"
  let ?r = "(review_request ''r1'' ''approved'')\<lparr>body := [''status'' \<mapsto> JStr ''approved'', ''reviewedBy'' \<mapsto> JStr ''a2'']\<rparr>"
  have c: "body ?c ''user_id'' \<noteq> Some (JStr (sub (user ?c)))"
    by (simp add: create_request_def student_claims_def)
  have r: "body ?r ''reviewedBy'' \<noteq> Some (JStr (sub (user ?r)))"
    by (simp add: review_request_def admin_claims_def)
  have ins: "map (\<lambda>r. r ''user_id'') (tables (snd (post_od_request example_env no_faults example_db create_request)) OdRequests)
       = [Some (JStr ''u1''), Some (JStr ''u2''), Some (JStr ''u1'')]"
  proof -
    have u: "body create_request ''user_id'' = Some (JStr (sub (user create_request)))"
        "timings_fault no_faults = None" "main_fault no_faults = None"
        "body create_request ''date'' = Some (JStr ''2099-01-01'')"
      by (simp_all add: create_request_def od_body_def student_claims_def no_faults_def)
    have l: "in_values example_env (body create_request ''periods'') = Inr [JNum 1, JNum 2]"
      by (simp add: create_request_def od_body_def in_values_def)
    show ?thesis
      unfolding post_od_request_steps[OF u(1,2) l] u
      by (simp add: example_env_fields example_clock_normalized example_future_normalized date_lt_def
          store_defs example_defs)
  qed
  have upd: "map (\<lambda>r. r ''reviewed_by'')
        (tables (snd (put_od_review example_env no_faults example_db (review_request ''r1'' ''approved''))) OdRequests)
       = [Some (JStr ''a1''), Some (JStr ''a1'')]"
    by (simp add: put_od_review_def review_changes_def store_defs example_defs split_beta)
  show ?thesis
    using identity_checks[of ?c example_env no_faults example_db]
      identity_checks[of ?r example_env no_faults example_db] c r ins upd
    by (simp add: logged_def example_db_def)
qed

section \<open>Reviews of one request\<close>




section \<open>Creating a request\<close>

lemma example_student_passes:
  "authorize ''user'' None example_db (create_request\<lparr>body := b\<rparr>) =
     (Inr (create_request\<lparr>body := b\<rparr>), logged (OpSelect AdminWhitelist) example_db)"
  by (simp add: authorize_def store_defs example_defs split_beta endsWith_def)

lemma example_admin_passes:
  "authorize ''admin'' None example_db (admin_request\<lparr>param := i, body := b\<rparr>) =
     (Inr (admin_request\<lparr>user := admin_claims\<lparr>department := Some (JStr ''CSE'')\<rparr>, param := i, body := b\<rparr>),
      logged (OpSelect AdminWhitelist) example_db)"
  by (simp add: authorize_def store_defs example_defs split_beta)

text \<open>
  The claim C5 as stated fails for a body that brings a \<open>status\<close> of its own: the handler
  inserts the body as it is, so the request of a student that says \<open>status: approved\<close> is
  stored as approved and answered 201.
\<close>

theorem create_with_status_is_not_pending:
  "status_code (fst (route_od_request example_env no_faults example_db
       (create_request\<lparr>body := od_body(''status'' \<mapsto> JStr ''approved'')\<rparr>))) = 201
   \<and> map (\<lambda>r. r ''status'') (tables (snd (route_od_request example_env no_faults example_db
       (create_request\<lparr>body := od_body(''status'' \<mapsto> JStr ''approved'')\<rparr>))) OdRequests)
      = [Some (JStr ''pending''), Some (JStr ''approved''), Some (JStr ''approved'')]"
proof -
  let ?req = "create_request\<lparr>body := od_body(''status'' \<mapsto> JStr ''approved'')\<rparr>"
  have u: "body ?req ''user_id'' = Some (JStr (sub (user ?req)))"
      "timings_fault no_faults = None" "main_fault no_faults = None"
      "body ?req ''date'' = Some (JStr ''2099-01-01'')"
    by (simp_all add: create_request_def od_body_def student_claims_def no_faults_def)
  have l: "in_values example_env (body ?req ''periods'') = Inr [JNum 1, JNum 2]"
    by (simp add: create_request_def od_body_def in_values_def)
  have r: "route_od_request example_env no_faults example_db ?req =
      post_od_request example_env no_faults (logged (OpSelect AdminWhitelist) example_db) ?req"
    by (simp add: route_od_request_def guarded_def example_student_passes no_faults_def)
  show ?thesis
    unfolding r post_od_request_steps[OF u(1,2) l] u
    by (simp add: example_env_fields example_clock_normalized example_future_normalized date_lt_def
        store_defs example_defs reply_def)
qed

text \<open>
  C5 (amended). A create call that passes the \<open>user_id\<close> check and the date validation,
  and whose insert the store accepts, adds exactly one row, the body over the store's
  defaults, and is answered 201 with that row. The status of the row is \<open>pending\<close> when
  the body has no \<open>status\<close>, and the body's otherwise.
\<close>

theorem create_inserts_body:
  assumes "body req ''user_id'' = Some (JStr (sub (user req)))"
      and "fst (validatePeriods en (timings_fault sr) d (body req ''year'') (body req ''periods'')
                 (body req ''date'')) = Inr v"
      and "valid v"
      and "main_fault sr = None"
  shows "fst (post_od_request en sr d req) =
           reply 201 (JsonRow (column_defaults OdRequests (generated_columns sr) ++ body req))
       \<and> tables (snd (post_od_request en sr d req)) =
           (tables d)(OdRequests :=
              tables d OdRequests @ [column_defaults OdRequests (generated_columns sr) ++ body req])
       \<and> (column_defaults OdRequests (generated_columns sr) ++ body req) ''status'' =
           (case body req ''status'' of None \<Rightarrow> Some (JStr ''pending'') | Some s \<Rightarrow> Some s)"
proof -
  from validatePeriods_passed[OF assms(2)]
  obtain xs where t: "timings_fault sr = None"
    and l: "in_values en (body req ''periods'') = Inr xs"
    by blast
  have "\<not> date_lt (normalized (localTZA en) (newDate en (body req ''date''))) (normalized (localTZA en) (Some (now en)))"
    using assms(2,3) unfolding t validatePeriods_answered[OF l] by (auto split: if_splits)
  then show ?thesis
    unfolding post_od_request_steps[OF assms(1) t l] assms(4)
    by (simp add: logged_def set_rows_def column_defaults_def map_add_def split: option.splits)
qed

theorem create_inserts_body_witness:
  "body create_request ''user_id'' = Some (JStr (sub (user create_request)))
   \<and> fst (validatePeriods example_env (timings_fault no_faults) example_db (body create_request ''year'')
          (body create_request ''periods'') (body create_request ''date''))
       = Inr \<lparr>valid = True, errorMsg = None\<rparr>
   \<and> main_fault no_faults = None
   \<and> status_code (fst (post_od_request example_env no_faults example_db create_request)) = 201
   \<and> length (tables (snd (post_od_request example_env no_faults example_db create_request)) OdRequests) = 3
   \<and> (column_defaults OdRequests (generated_columns no_faults) ++ body create_request) ''status''
       = Some (JStr ''pending'')"
proof -
  have u: "body create_request ''user_id'' = Some (JStr (sub (user create_request)))"
    by (simp add: create_request_def od_body_def student_claims_def)
  have f: "timings_fault no_faults = None" "main_fault no_faults = None"
    by (simp_all add: no_faults_def)
  have v: "fst (validatePeriods example_env (timings_fault no_faults) example_db (body create_request ''year'')
          (body create_request ''periods'') (body create_request ''date''))
       = Inr \<lparr>valid = True, errorMsg = None\<rparr>"
  proof -
    have l: "in_values example_env (body create_request ''periods'') = Inr [JNum 1, JNum 2]"
      by (simp add: create_request_def od_body_def in_values_def)
    show ?thesis
      unfolding f validatePeriods_answered[OF l]
      by (simp add: create_request_def od_body_def example_env_fields example_clock_normalized
          example_future_normalized date_lt_def)
  qed
  have s: "body create_request ''status'' = None"
    by (simp add: create_request_def od_body_def)
  have l: "length (tables example_db OdRequests) = 2"
    by (simp add: example_db_def example_tables_def)
  show ?thesis
    using create_inserts_body[OF u v _ f(2)] u v f s l
    by (simp add: reply_def)
qed


section \<open>Failures of the store\<close>

lemma get_timings_failure:
  "main_fault sr = Some e \<Longrightarrow> fst (get_timings en sr d req) = caught e"
  by (simp add: get_timings_def select_rows_def)

lemma get_user_lookup:
  assumes "sub (user req) = param req
           \<or> \<not> isl (fst (whitelist_lookup (lookup_fault sr) [''email''] (email (user req)) d))"
  shows "fst (get_user en sr d req) =
     (case single (case main_fault sr of
                     Some e \<Rightarrow> Inl e
                   | None \<Rightarrow> Inr (filter (eq_filter ''id'' (param req)) (tables d Users))) of
        Inl e \<Rightarrow> if code e = ''PGRST116'' then reply 404 (JsonError ''User not found'') else caught e
      | Inr data \<Rightarrow> reply 200 (JsonRow data))"
  using assms
  by (auto simp add: get_user_def select_rows_def logged_def whitelist_lookup_def split_beta
      simp del: eq_filter.simps split: sum.splits option.splits)

lemma get_user_failure:
  assumes "sub (user req) = param req
           \<or> \<not> isl (fst (whitelist_lookup (lookup_fault sr) [''email''] (email (user req)) d))"
      and "main_fault sr = Some e"
  shows "fst (get_user en sr d req) =
     (if code e = ''PGRST116'' then reply 404 (JsonError ''User not found'') else caught e)"
  unfolding get_user_lookup[OF assms(1)] assms(2) by simp

lemma get_user_missing:
  assumes "sub (user req) = param req
           \<or> \<not> isl (fst (whitelist_lookup (lookup_fault sr) [''email''] (email (user req)) d))"
      and "main_fault sr = None" "filter (eq_filter ''id'' (param req)) (tables d Users) = []"
  shows "fst (get_user en sr d req) = reply 404 (JsonError ''User not found'')"
  unfolding get_user_lookup[OF assms(1)] assms(2,3) by (simp add: PGRST116_def)

lemma get_user_lookup_failure:
  "sub (user req) \<noteq> param req \<Longrightarrow> lookup_fault sr = Some e \<Longrightarrow>
   fst (get_user en sr d req) = reply 403 (JsonError ''Unauthorized'')"
  by (simp add: get_user_def whitelist_lookup_def select_rows_def split_beta)

lemma post_user_failure:
  "body req ''id'' = Some (JStr (sub (user req))) \<Longrightarrow> main_fault sr = Some e \<Longrightarrow>
   fst (post_user en sr d req) = caught e"
  by (simp add: post_user_def upsert_row_def)

lemma post_od_request_timings_failure:
  assumes "body req ''user_id'' = Some (JStr (sub (user req)))" "timings_fault sr = Some e"
  shows "fst (post_od_request en sr d req) =
     (case in_values en (body req ''periods'') of Inl t \<Rightarrow> caught t | Inr xs \<Rightarrow> caught e)"
proof (cases "in_values en (body req ''periods'')")
  case (Inl t)
  then show ?thesis by (simp add: post_od_request_not_built[OF assms(1) Inl])
next
  case (Inr xs)
  then show ?thesis
    using assms by (simp add: post_od_request_def validatePeriods_thrown[OF Inr])
qed

lemma post_od_request_insert_failure:
  assumes "body req ''user_id'' = Some (JStr (sub (user req)))" "timings_fault sr = None"
      and "\<not> date_lt (normalized (localTZA en) (newDate en (body req ''date''))) (normalized (localTZA en) (Some (now en)))"
      and "main_fault sr = Some e"
  shows "fst (post_od_request en sr d req) =
     (case in_values en (body req ''periods'') of Inl t \<Rightarrow> caught t | Inr xs \<Rightarrow> caught e)"
proof (cases "in_values en (body req ''periods'')")
  case (Inl t)
  then show ?thesis by (simp add: post_od_request_not_built[OF assms(1) Inl])
next
  case (Inr xs)
  then show ?thesis
    unfolding post_od_request_steps[OF assms(1,2) Inr] using assms(3,4) by simp
qed

lemma get_od_history_failure:
  assumes "sub (user req) = param req
           \<or> \<not> isl (fst (whitelist_lookup (lookup_fault sr) [''email''] (email (user req)) d))"
      and "main_fault sr = Some e"
  shows "fst (get_od_history en sr d req) = caught e"
  using assms
  by (auto simp add: get_od_history_def select_rows_def split_beta)

lemma get_od_pending_failure:
  "main_fault sr = Some e \<Longrightarrow> fst (get_od_pending en sr d req) = caught e"
  by (simp add: get_od_pending_def select_rows_def)

lemma put_od_review_failure:
  "body req ''reviewedBy'' = Some (JStr (sub (user req))) \<Longrightarrow> main_fault sr = Some e \<Longrightarrow>
   fst (put_od_review en sr d req) = caught e"
  by (simp add: put_od_review_def update_single_def)

lemma put_od_review_missing:
  "body req ''reviewedBy'' = Some (JStr (sub (user req))) \<Longrightarrow> main_fault sr = None \<Longrightarrow>
   filter (eq_filter ''id'' (param req)) (tables d OdRequests) = [] \<Longrightarrow>
   fst (put_od_review en sr d req) = caught PGRST116"
  by (simp add: put_od_review_def update_single_def del: eq_filter.simps)

lemma get_reports_summary_failure:
  "main_fault sr = Some e \<Longrightarrow> fst (get_reports_summary en sr d req) = caught e"
  by (simp add: get_reports_summary_def select_rows_def)

lemma get_reports_export_failure:
  "main_fault sr = Some e \<Longrightarrow> fst (get_reports_export en sr d req) = caught e"
  by (simp add: get_reports_export_def select_rows_def)

lemma get_admin_whitelist_failure:
  "main_fault sr = Some e \<Longrightarrow> fst (get_admin_whitelist en sr d req) = caught e"
  by (simp add: get_admin_whitelist_def select_rows_def)

lemma post_admin_whitelist_failure:
  "main_fault sr = Some e \<Longrightarrow> fst (post_admin_whitelist en sr d req) = caught e"
  by (simp add: post_admin_whitelist_def insert_row_def)

lemma delete_admin_whitelist_failure:
  "main_fault sr = Some e \<Longrightarrow> fst (delete_admin_whitelist en sr d req) = caught e"
  by (simp add: delete_admin_whitelist_def delete_rows_def)

lemma post_admin_timings_failure:
  "main_fault sr = Some e \<Longrightarrow> fst (post_admin_timings en sr d req) = caught e"
  by (simp add: post_admin_timings_def upsert_row_def)

lemma authorize_lookup_failure:
  "fst (authorize ''admin'' (Some e) d req) = Inl (reply 403 (JsonError ''Admin access required''))"
  by (simp add: authorize_def whitelist_lookup_def select_rows_def)

text \<open>
  The claim C6 as stated fails: a review of an id that no row carries gets the row-not-found
  error PGRST116 from its single-row update, and the handler answers 500, not 404.
\<close>

theorem review_of_missing_row_is_500:
  "filter (eq_filter ''id'' ''r9'') (tables example_db OdRequests) = []
   \<and> fst (route_od_review example_env no_faults example_db (review_request ''r9'' ''approved'')) =
       reply 500 (JsonError ''JSON object requested, multiple (or no) rows returned'')
   \<and> status_code (fst (route_od_review example_env no_faults example_db (review_request ''r9'' ''approved'')))
       \<noteq> 404"
  by (simp add: route_od_review_def guarded_def authorize_def put_od_review_def review_changes_def
      store_defs example_defs split_beta caught_def PGRST116_def reply_def)


text \<open>
  C6 (amended). Every handler answers a failure of the store operation it performs (the
  timings fetch of the validator included) with 500 and the error's message; an exception
  of the client while it builds the timings query, for a \<open>periods\<close> it cannot list, is
  answered 500 as well, before any store call. The only 404 is that of
  \<open>GET /api/user/:id\<close>, for an error of its user lookup whose code is PGRST116; a review
  of an id that no row carries is answered 500. A failed whitelist lookup is not reported:
  the caller counts as not being an administrator and is answered 403.
\<close>

theorem store_failure_responses:
  "(main_fault sr = Some e \<longrightarrow>
      fst (get_timings en sr d req) = caught e
      \<and> fst (get_od_pending en sr d req) = caught e
      \<and> fst (get_reports_summary en sr d req) = caught e
      \<and> fst (get_reports_export en sr d req) = caught e
      \<and> fst (get_admin_whitelist en sr d req) = caught e
      \<and> fst (post_admin_whitelist en sr d req) = caught e
      \<and> fst (delete_admin_whitelist en sr d req) = caught e
      \<and> fst (post_admin_timings en sr d req) = caught e)
   \<and> (main_fault sr = Some e \<and> body req ''id'' = Some (JStr (sub (user req))) \<longrightarrow>
        fst (post_user en sr d req) = caught e)
   \<and> (main_fault sr = Some e \<and> body req ''reviewedBy'' = Some (JStr (sub (user req))) \<longrightarrow>
        fst (put_od_review en sr d req) = caught e)
   \<and> (main_fault sr = None \<and> body req ''reviewedBy'' = Some (JStr (sub (user req)))
        \<and> filter (eq_filter ''id'' (param req)) (tables d OdRequests) = [] \<longrightarrow>
        fst (put_od_review en sr d req) = caught PGRST116)
   \<and> (timings_fault sr = Some e \<and> body req ''user_id'' = Some (JStr (sub (user req))) \<longrightarrow>
        fst (post_od_request en sr d req) =
          (case in_values en (body req ''periods'') of Inl t \<Rightarrow> caught t | Inr xs \<Rightarrow> caught e))
   \<and> (main_fault sr = Some e \<and> timings_fault sr = None
        \<and> body req ''user_id'' = Some (JStr (sub (user req)))
        \<and> \<not> date_lt (normalized (localTZA en) (newDate en (body req ''date'')))
               (normalized (localTZA en) (Some (now en))) \<longrightarrow>
        fst (post_od_request en sr d req) =
          (case in_values en (body req ''periods'') of Inl t \<Rightarrow> caught t | Inr xs \<Rightarrow> caught e))
   \<and> (in_values en (body req ''periods'') = Inl e
        \<and> body req ''user_id'' = Some (JStr (sub (user req))) \<longrightarrow>
        post_od_request en sr d req = (caught e, d))
   \<and> (main_fault sr = Some e
        \<and> (sub (user req) = param req
             \<or> \<not> isl (fst (whitelist_lookup (lookup_fault sr) [''email''] (email (user req)) d))) \<longrightarrow>
        fst (get_od_history en sr d req) = caught e
        \<and> fst (get_user en sr d req) =
            (if code e = ''PGRST116'' then reply 404 (JsonError ''User not found'') else caught e))
   \<and> (main_fault sr = None \<and> sub (user req) = param req
        \<and> filter (eq_filter ''id'' (param req)) (tables d Users) = [] \<longrightarrow>
        fst (get_user en sr d req) = reply 404 (JsonError ''User not found''))
   \<and> (lookup_fault sr = Some e \<longrightarrow>
        fst (authorize ''admin'' (lookup_fault sr) d req) =
          Inl (reply 403 (JsonError ''Admin access required''))
        \<and> (sub (user req) \<noteq> param req \<longrightarrow>
             fst (get_user en sr d req) = reply 403 (JsonError ''Unauthorized'')))"
proof -
  have 1: "main_fault sr = Some e \<longrightarrow>
      fst (get_timings en sr d req) = caught e
      \<and> fst (get_od_pending en sr d req) = caught e
      \<and> fst (get_reports_summary en sr d req) = caught e
      \<and> fst (get_reports_export en sr d req) = caught e
      \<and> fst (get_admin_whitelist en sr d req) = caught e
      \<and> fst (post_admin_whitelist en sr d req) = caught e
      \<and> fst (delete_admin_whitelist en sr d req) = caught e
      \<and> fst (post_admin_timings en sr d req) = caught e"
    by (simp add: get_timings_failure get_od_pending_failure get_reports_summary_failure
        get_reports_export_failure get_admin_whitelist_failure post_admin_whitelist_failure
        delete_admin_whitelist_failure post_admin_timings_failure)
  have 2: "main_fault sr = Some e \<and> body req ''id'' = Some (JStr (sub (user req))) \<longrightarrow>
        fst (post_user en sr d req) = caught e"
    by (simp add: post_user_failure)
  have 3: "main_fault sr = Some e \<and> body req ''reviewedBy'' = Some (JStr (sub (user req))) \<longrightarrow>
        fst (put_od_review en sr d req) = caught e"
    by (simp add: put_od_review_failure)
  have 4: "main_fault sr = None \<and> body req ''reviewedBy'' = Some (JStr (sub (user req)))
        \<and> filter (eq_filter ''id'' (param req)) (tables d OdRequests) = [] \<longrightarrow>
        fst (put_od_review en sr d req) = caught PGRST116"
    by (simp add: put_od_review_missing del: eq_filter.simps)
  have 5: "timings_fault sr = Some e \<and> body req ''user_id'' = Some (JStr (sub (user req))) \<longrightarrow>
        fst (post_od_request en sr d req) =
          (case in_values en (body req ''periods'') of Inl t \<Rightarrow> caught t | Inr xs \<Rightarrow> caught e)"
    using post_od_request_timings_failure[of req sr e en d] by blast
  have 6: "main_fault sr = Some e \<and> timings_fault sr = None
        \<and> body req ''user_id'' = Some (JStr (sub (user req)))
        \<and> \<not> date_lt (normalized (localTZA en) (newDate en (body req ''date'')))
               (normalized (localTZA en) (Some (now en))) \<longrightarrow>
        fst (post_od_request en sr d req) =
          (case in_values en (body req ''periods'') of Inl t \<Rightarrow> caught t | Inr xs \<Rightarrow> caught e)"
    using post_od_request_insert_failure[of req sr en e d] by blast
  have 10: "in_values en (body req ''periods'') = Inl e
        \<and> body req ''user_id'' = Some (JStr (sub (user req))) \<longrightarrow>
        post_od_request en sr d req = (caught e, d)"
    using post_od_request_not_built[of req en e sr d] by blast
  have 7: "main_fault sr = Some e
        \<and> (sub (user req) = param req
             \<or> \<not> isl (fst (whitelist_lookup (lookup_fault sr) [''email''] (email (user req)) d))) \<longrightarrow>
        fst (get_od_history en sr d req) = caught e
        \<and> fst (get_user en sr d req) =
            (if code e = ''PGRST116'' then reply 404 (JsonError ''User not found'') else caught e)"
    using get_od_history_failure[of req sr d e en] get_user_failure[of req sr d e en] by blast
  have 8: "main_fault sr = None \<and> sub (user req) = param req
        \<and> filter (eq_filter ''id'' (param req)) (tables d Users) = [] \<longrightarrow>
        fst (get_user en sr d req) = reply 404 (JsonError ''User not found'')"
    using get_user_missing[of req sr d en] by blast
  have 9: "lookup_fault sr = Some e \<longrightarrow>
        fst (authorize ''admin'' (lookup_fault sr) d req) =
          Inl (reply 403 (JsonError ''Admin access required''))
        \<and> (sub (user req) \<noteq> param req \<longrightarrow>
             fst (get_user en sr d req) = reply 403 (JsonError ''Unauthorized''))"
    using authorize_lookup_failure[of e d req] get_user_lookup_failure[of req sr e en d] by simp
  from 1 2 3 4 5 6 10 7 8 9 show ?thesis by (intro conjI)
qed


theorem store_failure_responses_witness:
  "main_fault outage = Some timeout_error
   \<and> fst (get_timings example_env outage example_db (admin_request\<lparr>param := ''2''\<rparr>)) =
       reply 500 (JsonError ''canceling statement due to statement timeout'')
   \<and> fst (put_od_review example_env outage example_db (review_request ''r1'' ''approved'')) =
       reply 500 (JsonError ''canceling statement due to statement timeout'')
   \<and> fst (put_od_review example_env no_faults example_db (review_request ''r9'' ''approved'')) =
       reply 500 (JsonError ''JSON object requested, multiple (or no) rows returned'')
   \<and> fst (get_user example_env no_faults example_db (student_request\<lparr>user := student_claims\<lparr>sub := ''u7''\<rparr>, param := ''u7''\<rparr>)) =
       reply 404 (JsonError ''User not found'')
   \<and> fst (get_user example_env (outage\<lparr>main_fault := Some PGRST116\<rparr>) example_db
         (student_request\<lparr>param := ''u1''\<rparr>)) = reply 404 (JsonError ''User not found'')
   \<and> fst (get_user example_env outage example_db (student_request\<lparr>param := ''u1''\<rparr>)) =
       reply 500 (JsonError ''canceling statement due to statement timeout'')
   \<and> fst (authorize ''admin'' (lookup_fault lookup_outage) example_db admin_request) =
       Inl (reply 403 (JsonError ''Admin access required''))
   \<and> fst (post_od_request example_env (no_faults\<lparr>timings_fault := Some timeout_error\<rparr>) example_db
         create_request) = reply 500 (JsonError ''canceling statement due to statement timeout'')
   \<and> fst (post_od_request example_env outage example_db create_request) =
       reply 500 (JsonError ''canceling statement due to statement timeout'')
   \<and> post_od_request example_env no_faults example_db
         (create_request\<lparr>body := od_body(''periods'' \<mapsto> JNum 3)\<rparr>) =
       (reply 500 (JsonError ''values.map is not a function''), example_db)"
proof -
  let ?np = "create_request\<lparr>body := od_body(''periods'' \<mapsto> JNum 3)\<rparr>"
  have p: "body create_request ''user_id'' = Some (JStr (sub (user create_request)))"
      "body ?np ''user_id'' = Some (JStr (sub (user ?np)))"
      "in_values example_env (body create_request ''periods'') = Inr [JNum 1, JNum 2]"
      "in_values example_env (body ?np ''periods'') = Inl type_error"
      "timings_fault (no_faults\<lparr>timings_fault := Some timeout_error\<rparr>) = Some timeout_error"
      "timings_fault outage = None"
      "caught type_error = reply 500 (JsonError ''values.map is not a function'')"
    by (simp_all add: create_request_def od_body_def student_claims_def in_values_def example_env_def
        no_faults_def outage_def type_error_def caught_def)
  have q: "\<not> date_lt (normalized (localTZA example_env) (newDate example_env (body create_request ''date'')))
               (normalized (localTZA example_env) (Some (now example_env)))"
    by (simp add: create_request_def od_body_def example_env_fields example_clock_normalized
        example_future_normalized date_lt_def)
  have f: "main_fault outage = Some timeout_error" "main_fault no_faults = None"
      "main_fault (outage\<lparr>main_fault := Some PGRST116\<rparr>) = Some PGRST116"
      "lookup_fault lookup_outage = Some timeout_error"
    by (simp_all add: outage_def no_faults_def lookup_outage_def)
  have r: "body (review_request ''r1'' ''approved'') ''reviewedBy''
        = Some (JStr (sub (user (review_request ''r1'' ''approved''))))"
      "body (review_request ''r9'' ''approved'') ''reviewedBy''
        = Some (JStr (sub (user (review_request ''r9'' ''approved''))))"
      "filter (eq_filter ''id'' (param (review_request ''r9'' ''approved''))) (tables example_db OdRequests) = []"
    by (simp_all add: review_request_def admin_claims_def example_db_def example_tables_def
        od_cse_def od_ece_def)
  let ?u7 = "student_request\<lparr>user := student_claims\<lparr>sub := ''u7''\<rparr>, param := ''u7''\<rparr>"
  let ?u1 = "student_request\<lparr>param := ''u1''\<rparr>"
  have u: "sub (user ?u7) = param ?u7"
      "filter (eq_filter ''id'' (param ?u7)) (tables example_db Users) = []"
      "sub (user ?u1) = param ?u1"
    by (simp_all add: student_request_def student_claims_def example_db_def example_tables_def
        student_row_def)
  have c: "code timeout_error \<noteq> ''PGRST116''" "code PGRST116 = ''PGRST116''"
      "caught timeout_error = reply 500 (JsonError ''canceling statement due to statement timeout'')"
      "caught PGRST116 = reply 500 (JsonError ''JSON object requested, multiple (or no) rows returned'')"
    by (simp_all add: timeout_error_def PGRST116_def caught_def)
  show ?thesis
    using store_failure_responses[of outage timeout_error example_env example_db "admin_request\<lparr>param := ''2''\<rparr>"]
      store_failure_responses[of outage timeout_error example_env example_db "review_request ''r1'' ''approved''"]
      store_failure_responses[of no_faults timeout_error example_env example_db "review_request ''r9'' ''approved''"]
      store_failure_responses[of no_faults timeout_error example_env example_db ?u7]
      store_failure_responses[of "outage\<lparr>main_fault := Some PGRST116\<rparr>" PGRST116 example_env example_db ?u1]
      store_failure_responses[of outage timeout_error example_env example_db ?u1]
      store_failure_responses[of lookup_outage timeout_error example_env example_db admin_request]
      store_failure_responses[of "no_faults\<lparr>timings_fault := Some timeout_error\<rparr>" timeout_error
        example_env example_db create_request]
      store_failure_responses[of outage timeout_error example_env example_db create_request]
      store_failure_responses[of no_faults type_error example_env example_db ?np]
      f r u c p q
    by (simp del: eq_filter.simps)
qed

section \<open>Department scope of the reports\<close>

lemma export_ignores_caller:
  "get_reports_export en sr d req = get_reports_export en sr d req'"
  by (simp add: get_reports_export_def)

lemma summary_department_scoped:
  assumes "truthy (department (user req))" "main_fault sr = None"
  shows "fst (get_reports_summary en sr d req) =
     reply 200 (JsonStats (summary_stats
       (map (project [''status'', ''department'', ''od_category''])
          (filter (eq_filter ''department'' (js_string_opt (department (user req))))
             (tables d OdRequests)))))"
  using assms
  by (simp add: get_reports_summary_def select_rows_def department_filter_def del: eq_filter.simps
      cong: filter_cong)

text \<open>
  C7. The summary is scoped to the administrator's department (\<open>summary_department_scoped\<close>),
  but the export reads every row whoever calls it (\<open>export_ignores_caller\<close>): for the
  administrator scoped to CSE the summary counts the one CSE row, while the exported file
  also holds the ECE row.
\<close>

theorem export_not_department_scoped:
  "fst (authorize ''admin'' None example_db admin_request) =
     Inr (admin_request\<lparr>user := admin_claims\<lparr>department := Some (JStr ''CSE'')\<rparr>\<rparr>)
   \<and> map (\<lambda>r. r ''department'') (tables example_db OdRequests)
       = [Some (JStr ''CSE''), Some (JStr ''ECE'')]
   \<and> content (fst (route_reports_export example_env no_faults example_db admin_request)) =
       Csv (''Reg Number,Dept,Year,Category,Date,Status'' @ [CHR 0x0A] @
            ''21EC007,ECE,3,symposium,2099-02-01,approved'' @ [CHR 0x0A] @
            ''21CS001,CSE,2,sports,2099-01-01,pending'')
   \<and> (case content (fst (route_reports_summary example_env no_faults example_db admin_request)) of
         JsonStats s \<Rightarrow> total s = 1 \<and> deptDistribution s ''CSE'' = Some (JNum 1) \<and> deptDistribution s ''ECE'' = None
       | _ \<Rightarrow> False)"
proof -
  have a: "authorize ''admin'' None example_db admin_request =
     (Inr (admin_request\<lparr>user := admin_claims\<lparr>department := Some (JStr ''CSE'')\<rparr>\<rparr>),
      logged (OpSelect AdminWhitelist) example_db)"
    by (simp add: authorize_def store_defs example_defs split_beta)
  have l: "lookup_fault no_faults = None" by (simp add: no_faults_def)
  have e: "content (fst (route_reports_export example_env no_faults example_db admin_request)) =
       Csv (''Reg Number,Dept,Year,Category,Date,Status'' @ [CHR 0x0A] @
            ''21EC007,ECE,3,symposium,2099-02-01,approved'' @ [CHR 0x0A] @
            ''21CS001,CSE,2,sports,2099-01-01,pending'')"
    unfolding route_reports_export_def guarded_def l a
    by (simp add: get_reports_export_def store_defs example_defs order_by_def col_le_def
        csv_line_def csv_headers_def js_string_opt_def show_int_def digit_def reply_def)
  have s: "(case content (fst (route_reports_summary example_env no_faults example_db admin_request)) of
         JsonStats s \<Rightarrow> total s = 1 \<and> deptDistribution s ''CSE'' = Some (JNum 1) \<and> deptDistribution s ''ECE'' = None
       | _ \<Rightarrow> False)"
    unfolding route_reports_summary_def guarded_def l a
    by (simp add: get_reports_summary_def department_filter_def summary_stats_def bump_def
        inherited_member_def store_defs example_defs js_string_opt_def reply_def)
  have d: "map (\<lambda>r. r ''department'') (tables example_db OdRequests)
       = [Some (JStr ''CSE''), Some (JStr ''ECE'')]"
    by (simp add: example_defs)
  from a d e s show ?thesis by simp
qed

end
